theory Spec2Isabelle
  imports Complex_Main "HOL-Library.Monad_Syntax"
begin

section \<open>Data model\<close>

text \<open>
  The views of \<^verbatim>\<open>users/views.py\<close> work on three model classes, User, Passenger and
  Rider. Their fields are the ones the serializers of \<^verbatim>\<open>users/serializers.py\<close> list,
  plus \<^verbatim>\<open>is_staff\<close> (read by the views) and the password (never serialized).
  A primary key \<^verbatim>\<open>id\<close> is written \<open>_pk\<close>, and the fields that Passenger and
  Rider share carry the name of their class as a prefix.
\<close>

type_synonym decimal = rat

type_synonym timestamp = nat

record user =
  user_pk :: nat
  email :: string
  first_name :: string
  last_name :: string
  phone_number :: string
  user_type :: string
  date_joined :: timestamp
  is_staff :: bool
  password :: string

text \<open>The representation \<^verbatim>\<open>UserSerializer\<close> produces: \<^verbatim>\<open>Meta.fields\<close>, in order.\<close>

record user_view =
  view_pk :: nat
  view_email :: string
  view_first_name :: string
  view_last_name :: string
  view_phone_number :: string
  view_user_type :: string
  view_date_joined :: timestamp

text \<open>
  Modelled from the spec: \<^verbatim>\<open>users/models.py\<close> is not among the sources. The field
  names are those of \<^verbatim>\<open>PassengerSerializer.Meta.fields\<close> and
  \<^verbatim>\<open>RiderSerializer.Meta.fields\<close>; the field types follow section 3 of the
  specification (coordinates are nullable decimals, \<^verbatim>\<open>verification_status\<close> is the text the
  views compare with \<^verbatim>\<open>'approved'\<close>, timestamps are stored values). The record is
  polymorphic in the \<^verbatim>\<open>user\<close> field: a stored row holds the owning \<open>user\<close>, a
  serialized row holds the nested \<open>user_view\<close>.
\<close>

record 'u passenger_row =
  passenger_pk :: nat
  passenger_user :: 'u
  passenger_id :: string
  preferred_payment_method :: string
  home_address :: string
  passenger_profile_picture :: string
  preferred_language :: string
  emergency_contact :: string
  is_verified :: bool
  passenger_created_at :: timestamp
  passenger_updated_at :: timestamp

type_synonym passenger = "user passenger_row"
type_synonym passenger_view = "user_view passenger_row"

record 'u rider_row =
  rider_pk :: nat
  rider_user :: 'u
  rider_profile_picture :: string
  license_number :: string
  license_picture :: string
  id_number_picture :: string
  verification_status :: string
  verification_notes :: string
  is_available :: bool
  current_latitude :: "decimal option"
  current_longitude :: "decimal option"
  average_rating :: decimal
  total_rides :: nat
  total_earnings :: decimal
  rider_created_at :: timestamp
  rider_updated_at :: timestamp

type_synonym rider = "user rider_row"
type_synonym rider_view = "user_view rider_row"

subsection \<open>Serializers\<close>

definition UserSerializer :: "user \<Rightarrow> user_view" where
  "UserSerializer u =
     \<lparr>view_pk = user_pk u, view_email = email u, view_first_name = first_name u,
      view_last_name = last_name u, view_phone_number = phone_number u,
      view_user_type = user_type u, view_date_joined = date_joined u\<rparr>"

definition PassengerSerializer :: "passenger \<Rightarrow> passenger_view" where
  "PassengerSerializer p =
     \<lparr>passenger_pk = passenger_pk p, passenger_user = UserSerializer (passenger_user p),
      passenger_id = passenger_id p,
      preferred_payment_method = preferred_payment_method p,
      home_address = home_address p,
      passenger_profile_picture = passenger_profile_picture p,
      preferred_language = preferred_language p,
      emergency_contact = emergency_contact p, is_verified = is_verified p,
      passenger_created_at = passenger_created_at p,
      passenger_updated_at = passenger_updated_at p\<rparr>"

definition RiderSerializer :: "rider \<Rightarrow> rider_view" where
  "RiderSerializer r =
     \<lparr>rider_pk = rider_pk r, rider_user = UserSerializer (rider_user r),
      rider_profile_picture = rider_profile_picture r,
      license_number = license_number r, license_picture = license_picture r,
      id_number_picture = id_number_picture r,
      verification_status = verification_status r,
      verification_notes = verification_notes r, is_available = is_available r,
      current_latitude = current_latitude r, current_longitude = current_longitude r,
      average_rating = average_rating r, total_rides = total_rides r,
      total_earnings = total_earnings r, rider_created_at = rider_created_at r,
      rider_updated_at = rider_updated_at r\<rparr>"

section \<open>The cache, the store and the responses\<close>

text \<open>
  \<^verbatim>\<open>django.core.cache.cache\<close>: a slot holds a value and the time at which it expires.
  \<^verbatim>\<open>cache.get\<close> answers \<^verbatim>\<open>None\<close> for a key that is absent or expired,
  \<^verbatim>\<open>cache.set(key, value, timeout)\<close> stores the value until \<open>now + timeout\<close>, and
  \<^verbatim>\<open>cache.delete\<close> empties the slot. The only values the views store are serialized
  rider lists. Time is in seconds.
\<close>

record cache_entry =
  entry_value :: "rider_view list"
  expires_at :: timestamp

type_synonym cache = "string \<rightharpoonup> cache_entry"

definition cache_get :: "cache \<Rightarrow> string \<Rightarrow> timestamp \<Rightarrow> rider_view list option" where
  "cache_get c key now =
     (case c key of
        None \<Rightarrow> None
      | Some e \<Rightarrow> if now < expires_at e then Some (entry_value e) else None)"

definition cache_set :: "cache \<Rightarrow> string \<Rightarrow> rider_view list \<Rightarrow> nat \<Rightarrow> timestamp \<Rightarrow> cache" where
  "cache_set c key v timeout now = c(key \<mapsto> \<lparr>entry_value = v, expires_at = now + timeout\<rparr>)"

definition cache_delete :: "cache \<Rightarrow> string \<Rightarrow> cache" where
  "cache_delete c key = c(key := None)"

text \<open>
  Every call a view makes on the cache or on a table of the store is recorded, in the
  order the source makes it.
\<close>

datatype effect =
    Cache_get string
  | Cache_set string nat
  | Cache_delete string
  | Db_read string
  | Db_write string

record state =
  riders :: "rider list"
  passengers :: "passenger list"
  cache :: cache
  effects :: "effect list"

definition record_effects :: "effect list \<Rightarrow> state \<Rightarrow> state" where
  "record_effects es st = st\<lparr>effects := effects st @ es\<rparr>"

datatype body =
    Rider_data rider_view
  | Rider_list "rider_view list"
  | Passenger_data passenger_view
  | Passenger_list "passenger_view list"
  | Error_data string
  | Not_found_detail
  | Validation_errors
  | Unhandled string

datatype response = Response (data: body) (status: nat)

abbreviation HTTP_200_OK :: nat where "HTTP_200_OK \<equiv> 200"
abbreviation HTTP_201_CREATED :: nat where "HTTP_201_CREATED \<equiv> 201"
abbreviation HTTP_400_BAD_REQUEST :: nat where "HTTP_400_BAD_REQUEST \<equiv> 400"
abbreviation HTTP_403_FORBIDDEN :: nat where "HTTP_403_FORBIDDEN \<equiv> 403"
abbreviation HTTP_404_NOT_FOUND :: nat where "HTTP_404_NOT_FOUND \<equiv> 404"
abbreviation HTTP_500_INTERNAL_SERVER_ERROR :: nat where "HTTP_500_INTERNAL_SERVER_ERROR \<equiv> 500"

section \<open>RiderViewSet\<close>

text \<open>
  \<^verbatim>\<open>request.user\<close> is an authenticated \<open>user\<close>; two users are the same when their
  primary keys are, as Django compares model instances.
\<close>

definition available_riders :: "user \<Rightarrow> timestamp \<Rightarrow> state \<Rightarrow> response \<times> state" where
  "available_riders request_user now st =
     (let cache_key = ''available_riders'';
          cached_data = cache_get (cache st) cache_key now;
          st1 = record_effects [Cache_get cache_key] st
      in case cached_data of
           Some d \<Rightarrow> (Response (Rider_list d) HTTP_200_OK, st1)
         | None \<Rightarrow>
             (let available = filter (\<lambda>r. is_available r \<and> verification_status r = ''approved'')
                                 (riders st1);
                  serializer_data = map RiderSerializer available;
                  st2 = record_effects [Db_read ''Rider''] st1;
                  st3 = record_effects [Cache_set cache_key 300]
                          (st2\<lparr>cache := cache_set (cache st2) cache_key serializer_data 300 now\<rparr>)
              in (Response (Rider_list serializer_data) HTTP_200_OK, st3)))"

definition RiderViewSet_get_queryset :: "user \<Rightarrow> state \<Rightarrow> rider list" where
  "RiderViewSet_get_queryset request_user st =
     (if is_staff request_user then riders st
      else filter (\<lambda>r. user_pk (rider_user r) = user_pk request_user) (riders st))"

text \<open>
  \<^verbatim>\<open>get_object\<close> is inherited from the framework's generic view: it looks the primary
  key of the URL up in \<^verbatim>\<open>get_queryset()\<close> and raises \<^verbatim>\<open>Http404\<close> (here \<open>None\<close>,
  answered with status 404) when the queryset has no such row.
\<close>

definition RiderViewSet_get_object :: "user \<Rightarrow> nat \<Rightarrow> state \<Rightarrow> rider option" where
  "RiderViewSet_get_object request_user pk st =
     find (\<lambda>r. rider_pk r = pk) (RiderViewSet_get_queryset request_user st)"

text \<open>
  \<^verbatim>\<open>instance.save()\<close> on a row that was read from the table: the row with the
  instance's primary key is overwritten; were there none, the instance would be inserted.
\<close>

definition save_rider :: "rider \<Rightarrow> rider list \<Rightarrow> rider list" where
  "save_rider r rows =
     (if rider_pk r \<in> set (map rider_pk rows)
      then map (\<lambda>x. if rider_pk x = rider_pk r then r else x) rows
      else rows @ [r])"

definition RiderViewSet_my_profile :: "user \<Rightarrow> state \<Rightarrow> response \<times> state" where
  "RiderViewSet_my_profile request_user st =
     (let st1 = record_effects [Db_read ''Rider''] st
      in case filter (\<lambda>r. user_pk (rider_user r) = user_pk request_user) (riders st1) of
           [] \<Rightarrow> (Response (Error_data ''Rider profile not found'') HTTP_404_NOT_FOUND, st1)
         | [rider] \<Rightarrow> (Response (Rider_data (RiderSerializer rider)) HTTP_200_OK, st1)
         | _ \<Rightarrow> (Response (Unhandled ''MultipleObjectsReturned'')
                   HTTP_500_INTERNAL_SERVER_ERROR, st1))"

text \<open>
  \<^verbatim>\<open>request.data\<close> of a location update: the decimal submitted under each key.
  \<^verbatim>\<open>request.data.get(key)\<close> is \<^verbatim>\<open>None\<close> for a key that is absent and for one sent
  as \<^verbatim>\<open>null\<close>; both are \<open>None\<close> here.
\<close>

type_synonym location_data = "string \<rightharpoonup> decimal"

definition update_location :: "user \<Rightarrow> nat \<Rightarrow> location_data \<Rightarrow> state \<Rightarrow> response \<times> state" where
  "update_location request_user pk request_data st =
     (let st1 = record_effects [Db_read ''Rider''] st
      in case RiderViewSet_get_object request_user pk st1 of
           None \<Rightarrow> (Response Not_found_detail HTTP_404_NOT_FOUND, st1)
         | Some rider \<Rightarrow>
             if user_pk (rider_user rider) \<noteq> user_pk request_user \<and> \<not> is_staff request_user
             then (Response (Error_data ''Permission denied'') HTTP_403_FORBIDDEN, st1)
             else
               (let latitude = request_data ''current_latitude'';
                    longitude = request_data ''current_longitude'';
                    rider1 = (if latitude \<noteq> None
                              then rider\<lparr>current_latitude := latitude\<rparr> else rider);
                    rider2 = (if longitude \<noteq> None
                              then rider1\<lparr>current_longitude := longitude\<rparr> else rider1);
                    st2 = record_effects [Db_write ''Rider'']
                            (st1\<lparr>riders := save_rider rider2 (riders st1)\<rparr>);
                    st3 = record_effects [Cache_delete ''available_riders'']
                            (st2\<lparr>cache := cache_delete (cache st2) ''available_riders''\<rparr>)
                in (Response (Rider_data (RiderSerializer rider2)) HTTP_200_OK, st3)))"

subsection \<open>The inherited list, retrieve, create and update actions\<close>

text \<open>
  \<^verbatim>\<open>RiderViewSet\<close> is a \<^verbatim>\<open>ModelViewSet\<close> and overrides none of these actions;
  each works on \<^verbatim>\<open>get_queryset()\<close> and on the serializer class, and none of them
  touches the cache.
\<close>

definition RiderViewSet_list :: "user \<Rightarrow> state \<Rightarrow> response \<times> state" where
  "RiderViewSet_list request_user st =
     (Response (Rider_list (map RiderSerializer (RiderViewSet_get_queryset request_user st)))
        HTTP_200_OK,
      record_effects [Db_read ''Rider''] st)"

definition RiderViewSet_retrieve :: "user \<Rightarrow> nat \<Rightarrow> state \<Rightarrow> response \<times> state" where
  "RiderViewSet_retrieve request_user pk st =
     (let st1 = record_effects [Db_read ''Rider''] st
      in case RiderViewSet_get_object request_user pk st1 of
           None \<Rightarrow> (Response Not_found_detail HTTP_404_NOT_FOUND, st1)
         | Some rider \<Rightarrow> (Response (Rider_data (RiderSerializer rider)) HTTP_200_OK, st1))"

text \<open>
  The payload of a create or update request is a JSON object. A serializer reads the
  keys of its writable fields only: \<^verbatim>\<open>user\<close> is declared \<^verbatim>\<open>read_only=True\<close>, the
  keys of \<^verbatim>\<open>Meta.read_only_fields\<close> are skipped, and a key that names no field of the
  serializer (\<^verbatim>\<open>owner\<close>, say) is never looked at. \<open>None\<close> stands for a
  \<^verbatim>\<open>ValidationError\<close>, answered with status 400.
\<close>

datatype json = Null | Boolean bool | Number decimal | Text string

type_synonym request_data = "string \<rightharpoonup> json"

definition text_field :: "request_data \<Rightarrow> string \<Rightarrow> string option" where
  "text_field d key = (case d key of Some (Text s) \<Rightarrow> Some s | _ \<Rightarrow> None)"

definition boolean_field :: "request_data \<Rightarrow> string \<Rightarrow> bool option" where
  "boolean_field d key = (case d key of Some (Boolean b) \<Rightarrow> Some b | _ \<Rightarrow> None)"

definition decimal_field :: "request_data \<Rightarrow> string \<Rightarrow> decimal option option" where
  "decimal_field d key =
     (case d key of
        None \<Rightarrow> Some None
      | Some Null \<Rightarrow> Some None
      | Some (Number x) \<Rightarrow> Some (Some x)
      | _ \<Rightarrow> None)"

text \<open>With \<^verbatim>\<open>partial=True\<close> a key that is absent leaves its field alone.\<close>

definition partial :: "(request_data \<Rightarrow> string \<Rightarrow> 'a option) \<Rightarrow> request_data \<Rightarrow> string \<Rightarrow> 'a option option" where
  "partial field d key = (if d key = None then Some None else map_option Some (field d key))"

record rider_fields =
  vd_rider_profile_picture :: string
  vd_license_number :: string
  vd_license_picture :: string
  vd_id_number_picture :: string
  vd_verification_status :: string
  vd_verification_notes :: string
  vd_is_available :: bool
  vd_current_latitude :: "decimal option"
  vd_current_longitude :: "decimal option"

text \<open>
  Modelled from the spec: which fields the model class makes optional is declared in
  \<^verbatim>\<open>users/models.py\<close>, which is not among the sources. Following section 3 of the
  specification, the two coordinates are nullable and every other writable field of
  \<^verbatim>\<open>RiderSerializer\<close> is expected with a value of its type.
\<close>

definition RiderSerializer_validated_data :: "request_data \<Rightarrow> rider_fields option" where
  "RiderSerializer_validated_data d =
     do {
       a \<leftarrow> text_field d ''profile_picture'';
       b \<leftarrow> text_field d ''license_number'';
       c \<leftarrow> text_field d ''license_picture'';
       e \<leftarrow> text_field d ''id_number_picture'';
       f \<leftarrow> text_field d ''verification_status'';
       g \<leftarrow> text_field d ''verification_notes'';
       h \<leftarrow> boolean_field d ''is_available'';
       i \<leftarrow> decimal_field d ''current_latitude'';
       j \<leftarrow> decimal_field d ''current_longitude'';
       Some \<lparr>vd_rider_profile_picture = a, vd_license_number = b, vd_license_picture = c,
             vd_id_number_picture = e, vd_verification_status = f,
             vd_verification_notes = g, vd_is_available = h, vd_current_latitude = i,
             vd_current_longitude = j\<rparr>
     }"

record rider_patch =
  patch_rider_profile_picture :: "string option"
  patch_license_number :: "string option"
  patch_license_picture :: "string option"
  patch_id_number_picture :: "string option"
  patch_verification_status :: "string option"
  patch_verification_notes :: "string option"
  patch_is_available :: "bool option"
  patch_current_latitude :: "decimal option option"
  patch_current_longitude :: "decimal option option"

definition RiderSerializer_partial_validated_data :: "request_data \<Rightarrow> rider_patch option" where
  "RiderSerializer_partial_validated_data d =
     do {
       a \<leftarrow> partial text_field d ''profile_picture'';
       b \<leftarrow> partial text_field d ''license_number'';
       c \<leftarrow> partial text_field d ''license_picture'';
       e \<leftarrow> partial text_field d ''id_number_picture'';
       f \<leftarrow> partial text_field d ''verification_status'';
       g \<leftarrow> partial text_field d ''verification_notes'';
       h \<leftarrow> partial boolean_field d ''is_available'';
       i \<leftarrow> partial decimal_field d ''current_latitude'';
       j \<leftarrow> partial decimal_field d ''current_longitude'';
       Some \<lparr>patch_rider_profile_picture = a, patch_license_number = b,
             patch_license_picture = c, patch_id_number_picture = e,
             patch_verification_status = f, patch_verification_notes = g,
             patch_is_available = h, patch_current_latitude = i,
             patch_current_longitude = j\<rparr>
     }"

text \<open>\<^verbatim>\<open>serializer.update(instance, validated_data)\<close>: one \<^verbatim>\<open>setattr\<close> per validated field.\<close>

definition RiderSerializer_update :: "rider \<Rightarrow> rider_fields \<Rightarrow> rider" where
  "RiderSerializer_update instance v =
     instance\<lparr>rider_profile_picture := vd_rider_profile_picture v,
              license_number := vd_license_number v,
              license_picture := vd_license_picture v,
              id_number_picture := vd_id_number_picture v,
              verification_status := vd_verification_status v,
              verification_notes := vd_verification_notes v,
              is_available := vd_is_available v,
              current_latitude := vd_current_latitude v,
              current_longitude := vd_current_longitude v\<rparr>"

definition patched :: "'a option \<Rightarrow> 'a \<Rightarrow> 'a" where
  "patched new old = (case new of None \<Rightarrow> old | Some x \<Rightarrow> x)"

definition RiderSerializer_partial_update :: "rider \<Rightarrow> rider_patch \<Rightarrow> rider" where
  "RiderSerializer_partial_update instance p =
     instance\<lparr>rider_profile_picture :=
                patched (patch_rider_profile_picture p) (rider_profile_picture instance),
              license_number := patched (patch_license_number p) (license_number instance),
              license_picture := patched (patch_license_picture p) (license_picture instance),
              id_number_picture :=
                patched (patch_id_number_picture p) (id_number_picture instance),
              verification_status :=
                patched (patch_verification_status p) (verification_status instance),
              verification_notes :=
                patched (patch_verification_notes p) (verification_notes instance),
              is_available := patched (patch_is_available p) (is_available instance),
              current_latitude :=
                patched (patch_current_latitude p) (current_latitude instance),
              current_longitude :=
                patched (patch_current_longitude p) (current_longitude instance)\<rparr>"

text \<open>
  \<^verbatim>\<open>update\<close> (PUT) and \<^verbatim>\<open>partial_update\<close> (PATCH): \<^verbatim>\<open>get_object\<close>, validation,
  then \<^verbatim>\<open>perform_update\<close>, which is \<^verbatim>\<open>serializer.save()\<close>.
\<close>

definition RiderViewSet_update :: "user \<Rightarrow> nat \<Rightarrow> request_data \<Rightarrow> state \<Rightarrow> response \<times> state" where
  "RiderViewSet_update request_user pk request_data st =
     (let st1 = record_effects [Db_read ''Rider''] st
      in case RiderViewSet_get_object request_user pk st1 of
           None \<Rightarrow> (Response Not_found_detail HTTP_404_NOT_FOUND, st1)
         | Some instance \<Rightarrow>
             (case RiderSerializer_validated_data request_data of
                None \<Rightarrow> (Response Validation_errors HTTP_400_BAD_REQUEST, st1)
              | Some v \<Rightarrow>
                  (let rider = RiderSerializer_update instance v;
                       st2 = record_effects [Db_write ''Rider'']
                               (st1\<lparr>riders := save_rider rider (riders st1)\<rparr>)
                   in (Response (Rider_data (RiderSerializer rider)) HTTP_200_OK, st2))))"

definition RiderViewSet_partial_update :: "user \<Rightarrow> nat \<Rightarrow> request_data \<Rightarrow> state \<Rightarrow> response \<times> state" where
  "RiderViewSet_partial_update request_user pk request_data st =
     (let st1 = record_effects [Db_read ''Rider''] st
      in case RiderViewSet_get_object request_user pk st1 of
           None \<Rightarrow> (Response Not_found_detail HTTP_404_NOT_FOUND, st1)
         | Some instance \<Rightarrow>
             (case RiderSerializer_partial_validated_data request_data of
                None \<Rightarrow> (Response Validation_errors HTTP_400_BAD_REQUEST, st1)
              | Some p \<Rightarrow>
                  (let rider = RiderSerializer_partial_update instance p;
                       st2 = record_effects [Db_write ''Rider'']
                               (st1\<lparr>riders := save_rider rider (riders st1)\<rparr>)
                   in (Response (Rider_data (RiderSerializer rider)) HTTP_200_OK, st2))))"

text \<open>
  \<^verbatim>\<open>create\<close> validates the payload and calls \<^verbatim>\<open>perform_create\<close>, which is
  \<^verbatim>\<open>serializer.save(user=self.request.user)\<close>: the row is built from the validated data
  and the keyword argument.
\<close>

text \<open>
  Modelled from the spec: the model class of \<^verbatim>\<open>users/models.py\<close> is not among the
  sources. By sections 3 and 4.3 of the specification a new row gets a generated id and
  timestamps, the server-computed fields are not taken from the client (they start at
  zero here), and a user has at most one Rider row, so that the insert of a second one
  fails with an \<^verbatim>\<open>IntegrityError\<close>, which no view catches.
\<close>

definition next_pk :: "nat list \<Rightarrow> nat" where
  "next_pk pks = Suc (fold max pks 0)"

definition RiderViewSet_perform_create :: "user \<Rightarrow> rider_fields \<Rightarrow> timestamp \<Rightarrow> state \<Rightarrow> rider option \<times> state" where
  "RiderViewSet_perform_create request_user v now st =
     (if user_pk request_user \<in> set (map (\<lambda>r. user_pk (rider_user r)) (riders st))
      then (None, st)
      else
        (let rider = \<lparr>rider_pk = next_pk (map rider_pk (riders st)),
                      rider_user = request_user,
                      rider_profile_picture = vd_rider_profile_picture v,
                      license_number = vd_license_number v,
                      license_picture = vd_license_picture v,
                      id_number_picture = vd_id_number_picture v,
                      verification_status = vd_verification_status v,
                      verification_notes = vd_verification_notes v,
                      is_available = vd_is_available v,
                      current_latitude = vd_current_latitude v,
                      current_longitude = vd_current_longitude v,
                      average_rating = 0, total_rides = 0, total_earnings = 0,
                      rider_created_at = now, rider_updated_at = now\<rparr>
         in (Some rider,
             record_effects [Db_write ''Rider''] (st\<lparr>riders := riders st @ [rider]\<rparr>))))"

definition RiderViewSet_create :: "user \<Rightarrow> request_data \<Rightarrow> timestamp \<Rightarrow> state \<Rightarrow> response \<times> state" where
  "RiderViewSet_create request_user request_data now st =
     (case RiderSerializer_validated_data request_data of
        None \<Rightarrow> (Response Validation_errors HTTP_400_BAD_REQUEST, st)
      | Some v \<Rightarrow>
          (case RiderViewSet_perform_create request_user v now st of
             (None, st1) \<Rightarrow>
               (Response (Unhandled ''IntegrityError'') HTTP_500_INTERNAL_SERVER_ERROR, st1)
           | (Some rider, st1) \<Rightarrow>
               (Response (Rider_data (RiderSerializer rider)) HTTP_201_CREATED, st1)))"

section \<open>PassengerViewSet\<close>

definition PassengerViewSet_get_queryset :: "user \<Rightarrow> state \<Rightarrow> passenger list" where
  "PassengerViewSet_get_queryset request_user st =
     (if is_staff request_user then passengers st
      else filter (\<lambda>p. user_pk (passenger_user p) = user_pk request_user) (passengers st))"

definition PassengerViewSet_get_object :: "user \<Rightarrow> nat \<Rightarrow> state \<Rightarrow> passenger option" where
  "PassengerViewSet_get_object request_user pk st =
     find (\<lambda>p. passenger_pk p = pk) (PassengerViewSet_get_queryset request_user st)"

definition PassengerViewSet_my_profile :: "user \<Rightarrow> state \<Rightarrow> response \<times> state" where
  "PassengerViewSet_my_profile request_user st =
     (let st1 = record_effects [Db_read ''Passenger''] st
      in case filter (\<lambda>p. user_pk (passenger_user p) = user_pk request_user) (passengers st1) of
           [] \<Rightarrow> (Response (Error_data ''Passenger profile not found'') HTTP_404_NOT_FOUND, st1)
         | [passenger] \<Rightarrow>
             (Response (Passenger_data (PassengerSerializer passenger)) HTTP_200_OK, st1)
         | _ \<Rightarrow> (Response (Unhandled ''MultipleObjectsReturned'')
                   HTTP_500_INTERNAL_SERVER_ERROR, st1))"

definition PassengerViewSet_list :: "user \<Rightarrow> state \<Rightarrow> response \<times> state" where
  "PassengerViewSet_list request_user st =
     (Response
        (Passenger_list (map PassengerSerializer (PassengerViewSet_get_queryset request_user st)))
        HTTP_200_OK,
      record_effects [Db_read ''Passenger''] st)"

definition PassengerViewSet_retrieve :: "user \<Rightarrow> nat \<Rightarrow> state \<Rightarrow> response \<times> state" where
  "PassengerViewSet_retrieve request_user pk st =
     (let st1 = record_effects [Db_read ''Passenger''] st
      in case PassengerViewSet_get_object request_user pk st1 of
           None \<Rightarrow> (Response Not_found_detail HTTP_404_NOT_FOUND, st1)
         | Some passenger \<Rightarrow>
             (Response (Passenger_data (PassengerSerializer passenger)) HTTP_200_OK, st1))"

record passenger_fields =
  vd_passenger_id :: string
  vd_preferred_payment_method :: string
  vd_home_address :: string
  vd_passenger_profile_picture :: string
  vd_preferred_language :: string
  vd_emergency_contact :: string
  vd_is_verified :: bool

text \<open>
  Modelled from the spec: the model class of \<^verbatim>\<open>users/models.py\<close> is not among the
  sources; every writable field of \<^verbatim>\<open>PassengerSerializer\<close> is expected with a value
  of its type.
\<close>

definition PassengerSerializer_validated_data :: "request_data \<Rightarrow> passenger_fields option" where
  "PassengerSerializer_validated_data d =
     do {
       a \<leftarrow> text_field d ''passenger_id'';
       b \<leftarrow> text_field d ''preferred_payment_method'';
       c \<leftarrow> text_field d ''home_address'';
       e \<leftarrow> text_field d ''profile_picture'';
       f \<leftarrow> text_field d ''preferred_language'';
       g \<leftarrow> text_field d ''emergency_contact'';
       h \<leftarrow> boolean_field d ''is_verified'';
       Some \<lparr>vd_passenger_id = a, vd_preferred_payment_method = b, vd_home_address = c,
             vd_passenger_profile_picture = e, vd_preferred_language = f,
             vd_emergency_contact = g, vd_is_verified = h\<rparr>
     }"

text \<open>
  Modelled from the spec: as for riders, the generated id and timestamps and the rule of
  at most one Passenger row for a user stand for the model class of
  \<^verbatim>\<open>users/models.py\<close>, which is not among the sources.
\<close>

definition PassengerViewSet_perform_create :: "user \<Rightarrow> passenger_fields \<Rightarrow> timestamp \<Rightarrow> state \<Rightarrow> passenger option \<times> state" where
  "PassengerViewSet_perform_create request_user v now st =
     (if user_pk request_user \<in> set (map (\<lambda>p. user_pk (passenger_user p)) (passengers st))
      then (None, st)
      else
        (let passenger = \<lparr>passenger_pk = next_pk (map passenger_pk (passengers st)),
                          passenger_user = request_user,
                          passenger_id = vd_passenger_id v,
                          preferred_payment_method = vd_preferred_payment_method v,
                          home_address = vd_home_address v,
                          passenger_profile_picture = vd_passenger_profile_picture v,
                          preferred_language = vd_preferred_language v,
                          emergency_contact = vd_emergency_contact v,
                          is_verified = vd_is_verified v,
                          passenger_created_at = now, passenger_updated_at = now\<rparr>
         in (Some passenger,
             record_effects [Db_write ''Passenger'']
               (st\<lparr>passengers := passengers st @ [passenger]\<rparr>))))"

definition PassengerViewSet_create :: "user \<Rightarrow> request_data \<Rightarrow> timestamp \<Rightarrow> state \<Rightarrow> response \<times> state" where
  "PassengerViewSet_create request_user request_data now st =
     (case PassengerSerializer_validated_data request_data of
        None \<Rightarrow> (Response Validation_errors HTTP_400_BAD_REQUEST, st)
      | Some v \<Rightarrow>
          (case PassengerViewSet_perform_create request_user v now st of
             (None, st1) \<Rightarrow>
               (Response (Unhandled ''IntegrityError'') HTTP_500_INTERNAL_SERVER_ERROR, st1)
           | (Some passenger, st1) \<Rightarrow>
               (Response (Passenger_data (PassengerSerializer passenger)) HTTP_201_CREATED, st1)))"

section \<open>The access policy of the specification\<close>

text \<open>
  Section 4.1 of the specification, in its words: staff requesters have unrestricted
  read access; non-staff requesters are limited to the records whose owner is the
  requester.
\<close>

definition canAccess :: "nat \<Rightarrow> nat \<Rightarrow> bool \<Rightarrow> bool" where
  "canAccess requester targetOwnerUserId requesterIsStaff \<longleftrightarrow>
     requesterIsStaff \<or> targetOwnerUserId = requester"

section \<open>Example data\<close>

text \<open>
  Two ordinary users, a staff user and a user without any profile; rider A is available
  and approved, rider B is approved but not available.
\<close>

definition user_U :: user where
  "user_U = \<lparr>user_pk = 1, email = ''u@example.com'', first_name = ''Una'',
             last_name = ''Uwase'', phone_number = ''0781'', user_type = ''rider'',
             date_joined = 10, is_staff = False, password = ''pbkdf2$1''\<rparr>"

definition user_U2 :: user where
  "user_U2 = \<lparr>user_pk = 2, email = ''u2@example.com'', first_name = ''Ben'',
              last_name = ''Byiringiro'', phone_number = ''0782'', user_type = ''rider'',
              date_joined = 20, is_staff = False, password = ''pbkdf2$2''\<rparr>"

definition user_staff :: user where
  "user_staff = \<lparr>user_pk = 3, email = ''ops@example.com'', first_name = ''Sam'',
                 last_name = ''Staff'', phone_number = ''0783'', user_type = ''passenger'',
                 date_joined = 5, is_staff = True, password = ''pbkdf2$3''\<rparr>"

definition user_new :: user where
  "user_new = \<lparr>user_pk = 4, email = ''new@example.com'', first_name = ''Nia'',
               last_name = ''New'', phone_number = ''0784'', user_type = ''passenger'',
               date_joined = 30, is_staff = False, password = ''pbkdf2$4''\<rparr>"

definition rider_A :: rider where
  "rider_A = \<lparr>rider_pk = 1, rider_user = user_U, rider_profile_picture = ''a.png'',
              license_number = ''L-1'', license_picture = ''la.png'',
              id_number_picture = ''ia.png'', verification_status = ''approved'',
              verification_notes = ''ok'', is_available = True,
              current_latitude = Some (-2), current_longitude = Some 30,
              average_rating = 4, total_rides = 12, total_earnings = 9000,
              rider_created_at = 11, rider_updated_at = 11\<rparr>"

definition rider_B :: rider where
  "rider_B = \<lparr>rider_pk = 2, rider_user = user_U2, rider_profile_picture = ''b.png'',
              license_number = ''L-2'', license_picture = ''lb.png'',
              id_number_picture = ''ib.png'', verification_status = ''approved'',
              verification_notes = ''ok'', is_available = False,
              current_latitude = None, current_longitude = None,
              average_rating = 5, total_rides = 3, total_earnings = 2000,
              rider_created_at = 21, rider_updated_at = 21\<rparr>"

definition passenger_P :: passenger where
  "passenger_P = \<lparr>passenger_pk = 1, passenger_user = user_U2, passenger_id = ''P-1'',
                  preferred_payment_method = ''momo'', home_address = ''KG 7 Ave'',
                  passenger_profile_picture = ''p.png'', preferred_language = ''en'',
                  emergency_contact = ''0790'', is_verified = True,
                  passenger_created_at = 22, passenger_updated_at = 22\<rparr>"

definition st0 :: state where
  "st0 = \<lparr>riders = [rider_A, rider_B], passengers = [passenger_P], cache = Map.empty,
          effects = []\<rparr>"

definition st_populated :: state where
  "st_populated = snd (available_riders user_new 1000 st0)"

text \<open>The instance after the two conditional assignments of \<open>update_location\<close>.\<close>

definition located :: "location_data \<Rightarrow> rider \<Rightarrow> rider" where
  "located d rider =
     (let rider1 = (if d ''current_latitude'' \<noteq> None
                    then rider\<lparr>current_latitude := d ''current_latitude''\<rparr> else rider)
      in if d ''current_longitude'' \<noteq> None
         then rider1\<lparr>current_longitude := d ''current_longitude''\<rparr> else rider1)"

text \<open>
  The states of a scenario: the listing is cached at time 1000; then either rider A
  moves, or rider B becomes available through a PATCH of the generic update action at
  time 1100; or the table holds rider B alone.
\<close>

definition st_relocated :: state where
  "st_relocated = snd (update_location user_U 1 [''current_latitude'' \<mapsto> 5] st_populated)"

definition st_stale :: state where
  "st_stale =
     snd (RiderViewSet_partial_update user_U2 2 [''is_available'' \<mapsto> Boolean True] st_populated)"

definition st_none :: state where
  "st_none = st0\<lparr>riders := [rider_B]\<rparr>"

text \<open>
  Payloads of create requests that name user 2 as the owner.
\<close>

definition payload_passenger :: request_data where
  "payload_passenger =
     [''user'' \<mapsto> Number 2, ''owner'' \<mapsto> Number 2, ''passenger_id'' \<mapsto> Text ''P-9'',
      ''preferred_payment_method'' \<mapsto> Text ''cash'', ''home_address'' \<mapsto> Text ''KN 3 Rd'',
      ''profile_picture'' \<mapsto> Text ''u.png'', ''preferred_language'' \<mapsto> Text ''rw'',
      ''emergency_contact'' \<mapsto> Text ''0799'', ''is_verified'' \<mapsto> Boolean False]"

definition payload_rider :: request_data where
  "payload_rider =
     [''user'' \<mapsto> Number 2, ''owner'' \<mapsto> Number 2, ''profile_picture'' \<mapsto> Text ''n.png'',
      ''license_number'' \<mapsto> Text ''L-4'', ''license_picture'' \<mapsto> Text ''ln.png'',
      ''id_number_picture'' \<mapsto> Text ''in.png'', ''verification_status'' \<mapsto> Text ''pending'',
      ''verification_notes'' \<mapsto> Text ''new'', ''is_available'' \<mapsto> Boolean False,
      ''current_latitude'' \<mapsto> Null]"

section \<open>The availability cache\<close>

lemma cache_get_set_same:
  "cache_get (cache_set c key v timeout now) key t = (if t < now + timeout then Some v else None)"
  by (simp add: cache_get_def cache_set_def)

lemma cache_get_delete_same: "cache_get (cache_delete c key) key t = None"
  by (simp add: cache_get_def cache_delete_def)

lemma available_riders_hit:
  assumes "cache_get (cache st) ''available_riders'' now = Some d"
  shows "available_riders request_user now st =
           (Response (Rider_list d) HTTP_200_OK,
            st\<lparr>effects := effects st @ [Cache_get ''available_riders'']\<rparr>)"
  using assms by (simp add: available_riders_def record_effects_def Let_def)

lemma available_riders_miss:
  assumes "cache_get (cache st) ''available_riders'' now = None"
  shows "available_riders request_user now st =
           (Response (Rider_list (map RiderSerializer
              (filter (\<lambda>r. is_available r \<and> verification_status r = ''approved'') (riders st))))
              HTTP_200_OK,
            st\<lparr>cache := cache_set (cache st) ''available_riders''
                    (map RiderSerializer
                       (filter (\<lambda>r. is_available r \<and> verification_status r = ''approved'')
                          (riders st))) 300 now,
               effects := effects st @ [Cache_get ''available_riders'', Db_read ''Rider'',
                            Cache_set ''available_riders'' 300]\<rparr>)"
  using assms by (simp add: available_riders_def record_effects_def Let_def)

lemma filter_st0:
  "filter (\<lambda>r. is_available r \<and> verification_status r = ''approved'') (riders st0) = [rider_A]"
  by (simp add: st0_def rider_A_def rider_B_def)

lemma st_populated_eq:
  "st_populated =
     st0\<lparr>cache := cache_set Map.empty ''available_riders'' [RiderSerializer rider_A] 300 1000,
         effects := [Cache_get ''available_riders'', Db_read ''Rider'',
                     Cache_set ''available_riders'' 300]\<rparr>"
proof -
  have miss: "cache_get (cache st0) ''available_riders'' 1000 = None"
    by (simp add: st0_def cache_get_def)
  show ?thesis
    unfolding st_populated_def available_riders_miss [OF miss] filter_st0
    by (simp add: st0_def)
qed

text \<open>
  Claim C1. A call of \<open>available_riders\<close> that finds an unexpired entry in the slot
  \<^verbatim>\<open>'available_riders'\<close> answers with that entry as it is, and leaves the cache and the
  Rider table alone. A call that finds the slot empty or expired answers with the
  serialization of exactly the riders that are available and approved, and stores that
  serialization in the slot, to expire 300 seconds later.
\<close>

theorem available_riders_read_through:
  "(cache_get (cache st) ''available_riders'' now = Some d \<longrightarrow>
      fst (available_riders request_user now st) = Response (Rider_list d) HTTP_200_OK \<and>
      cache (snd (available_riders request_user now st)) = cache st \<and>
      riders (snd (available_riders request_user now st)) = riders st) \<and>
   (cache_get (cache st) ''available_riders'' now = None \<longrightarrow>
      fst (available_riders request_user now st) =
        Response (Rider_list (map RiderSerializer
          (filter (\<lambda>r. is_available r \<and> verification_status r = ''approved'') (riders st))))
          HTTP_200_OK \<and>
      cache (snd (available_riders request_user now st)) ''available_riders'' =
        Some \<lparr>entry_value = map RiderSerializer
          (filter (\<lambda>r. is_available r \<and> verification_status r = ''approved'') (riders st)),
          expires_at = now + 300\<rparr> \<and>
      riders (snd (available_riders request_user now st)) = riders st)"
  by (simp add: available_riders_def record_effects_def cache_set_def Let_def)

theorem available_riders_read_through_witness:
  "cache_get (cache st0) ''available_riders'' 1000 = None \<and>
   fst (available_riders user_new 1000 st0) =
     Response (Rider_list [RiderSerializer rider_A]) HTTP_200_OK \<and>
   cache (snd (available_riders user_new 1000 st0)) ''available_riders'' =
     Some \<lparr>entry_value = [RiderSerializer rider_A], expires_at = 1300\<rparr> \<and>
   cache_get (cache st_populated) ''available_riders'' 1100 = Some [RiderSerializer rider_A] \<and>
   fst (available_riders user_U 1100 st_populated) =
     Response (Rider_list [RiderSerializer rider_A]) HTTP_200_OK"
proof -
  have miss: "cache_get (cache st0) ''available_riders'' 1000 = None"
    by (simp add: st0_def cache_get_def)
  have hit: "cache_get (cache st_populated) ''available_riders'' 1100 =
               Some [RiderSerializer rider_A]"
    by (simp add: st_populated_eq cache_get_set_same)
  from miss hit
    available_riders_read_through [of st0 1000 "[]" user_new]
    available_riders_read_through [of st_populated 1100 "[RiderSerializer rider_A]" user_U]
  show ?thesis by (simp add: filter_st0)
qed

section \<open>The Rider table and the location update\<close>

lemma find_SomeD: "find P xs = Some x \<Longrightarrow> x \<in> set xs \<and> P x"
  by (induction xs) (auto split: if_splits)

lemma find_distinct_key:
  "distinct (map f xs) \<Longrightarrow> x \<in> set xs \<Longrightarrow> find (\<lambda>y. f y = f x) xs = Some x"
  by (induction xs) (auto simp: image_iff)

lemma map_replace_absent:
  "\<forall>y\<in>set xs. f y \<noteq> k \<Longrightarrow> map (\<lambda>y. if f y = k then x else y) xs = xs"
  by (induction xs) auto

lemma map_replace_same:
  "distinct (map f xs) \<Longrightarrow> x \<in> set xs \<Longrightarrow> map (\<lambda>y. if f y = f x then x else y) xs = xs"
proof (induction xs)
  case Nil
  then show ?case by simp
next
  case (Cons a xs)
  show ?case
  proof (cases "a = x")
    case True
    with Cons.prems have "\<forall>y\<in>set xs. f y \<noteq> f x" by (auto simp: image_iff)
    from map_replace_absent [OF this] True show ?thesis by simp
  next
    case False
    with Cons show ?thesis by (auto simp: image_iff)
  qed
qed

lemma get_queryset_record_effects [simp]:
  "RiderViewSet_get_queryset u (record_effects es st) = RiderViewSet_get_queryset u st"
  by (simp add: RiderViewSet_get_queryset_def record_effects_def)

lemma get_object_record_effects [simp]:
  "RiderViewSet_get_object u pk (record_effects es st) = RiderViewSet_get_object u pk st"
  by (simp add: RiderViewSet_get_object_def)

lemma get_object_owner_or_staff:
  assumes "RiderViewSet_get_object u pk st = Some rider"
  shows "rider \<in> set (riders st) \<and> rider_pk rider = pk \<and>
         (is_staff u \<or> user_pk (rider_user rider) = user_pk u)"
  using find_SomeD [OF assms [unfolded RiderViewSet_get_object_def]]
  by (auto simp: RiderViewSet_get_queryset_def split: if_splits)

lemma get_object_member:
  assumes "rider \<in> set (riders st)" and "distinct (map rider_pk (riders st))"
    and "is_staff u \<or> user_pk (rider_user rider) = user_pk u"
  shows "RiderViewSet_get_object u (rider_pk rider) st = Some rider"
proof -
  have m: "rider \<in> set (RiderViewSet_get_queryset u st)"
    using assms(1,3) by (auto simp: RiderViewSet_get_queryset_def)
  have d: "distinct (map rider_pk (RiderViewSet_get_queryset u st))"
    using assms(2) by (simp add: RiderViewSet_get_queryset_def distinct_map_filter)
  from find_distinct_key [OF d m] show ?thesis
    by (simp add: RiderViewSet_get_object_def)
qed

lemma get_object_hidden:
  assumes "\<not> is_staff u"
    and "\<forall>r\<in>set (riders st). rider_pk r = pk \<longrightarrow> user_pk (rider_user r) \<noteq> user_pk u"
  shows "RiderViewSet_get_object u pk st = None"
proof (cases "RiderViewSet_get_object u pk st")
  case None
  then show ?thesis .
next
  case (Some rider)
  from get_object_owner_or_staff [OF Some] assms show ?thesis by blast
qed

lemma update_location_not_found:
  assumes "RiderViewSet_get_object u pk st = None"
  shows "update_location u pk d st =
           (Response Not_found_detail HTTP_404_NOT_FOUND,
            st\<lparr>effects := effects st @ [Db_read ''Rider'']\<rparr>)"
  using assms by (simp add: update_location_def Let_def) (simp add: record_effects_def)

lemma update_location_found:
  assumes "RiderViewSet_get_object u pk st = Some rider"
  shows "update_location u pk d st =
           (Response (Rider_data (RiderSerializer (located d rider))) HTTP_200_OK,
            st\<lparr>riders := save_rider (located d rider) (riders st),
               cache := cache_delete (cache st) ''available_riders'',
               effects := effects st @ [Db_read ''Rider'', Db_write ''Rider'',
                            Cache_delete ''available_riders'']\<rparr>)"
proof -
  from get_object_owner_or_staff [OF assms]
  have "\<not> (user_pk (rider_user rider) \<noteq> user_pk u \<and> \<not> is_staff u)" by blast
  with assms show ?thesis
    unfolding update_location_def Let_def located_def
    by (simp del: not_None_eq) (simp add: record_effects_def)
qed

lemma update_location_never_forbidden:
  "status (fst (update_location u pk d st)) \<noteq> HTTP_403_FORBIDDEN"
  by (cases "RiderViewSet_get_object u pk st")
     (simp_all add: update_location_not_found update_location_found)

lemma update_location_other_owner:
  assumes "\<not> is_staff u"
    and "\<forall>r\<in>set (riders st). rider_pk r = pk \<longrightarrow> user_pk (rider_user r) \<noteq> user_pk u"
  shows "update_location u pk d st =
           (Response Not_found_detail HTTP_404_NOT_FOUND,
            st\<lparr>effects := effects st @ [Db_read ''Rider'']\<rparr>)"
  by (rule update_location_not_found [OF get_object_hidden [OF assms]])

lemma rider_pk_located [simp]: "rider_pk (located d rider) = rider_pk rider"
  by (simp add: located_def Let_def)

lemma save_rider_member:
  assumes "rider \<in> set rows" and "rider_pk rider' = rider_pk rider"
  shows "save_rider rider' rows = map (\<lambda>x. if rider_pk x = rider_pk rider then rider' else x) rows"
  using assms by (auto simp: save_rider_def)

lemma save_rider_same:
  assumes "rider \<in> set rows" and "distinct (map rider_pk rows)"
  shows "save_rider rider rows = rows"
  using assms map_replace_same [of rider_pk rows rider] by (auto simp: save_rider_def)

lemma get_object_A:
  "RiderViewSet_get_object user_U 1 st_populated = Some rider_A"
  by (simp add: RiderViewSet_get_object_def RiderViewSet_get_queryset_def st_populated_eq
      st0_def rider_A_def rider_B_def user_U_def user_U2_def)

lemma st_relocated_eq:
  "st_relocated =
     st_populated\<lparr>riders := [rider_A\<lparr>current_latitude := Some 5\<rparr>, rider_B],
       cache := cache_delete (cache st_populated) ''available_riders'',
       effects := effects st_populated @ [Db_read ''Rider'', Db_write ''Rider'',
                            Cache_delete ''available_riders'']\<rparr>"
  unfolding st_relocated_def update_location_found [OF get_object_A]
  by (simp add: located_def save_rider_def st_populated_eq st0_def rider_A_def rider_B_def)

text \<open>
  Claim C2. When \<open>update_location\<close> answers with status 200, the slot
  \<^verbatim>\<open>'available_riders'\<close> is empty afterwards, so \<^verbatim>\<open>cache.get\<close> finds nothing at
  any later time, and the next \<open>available_riders\<close> call, whenever it comes, queries
  the Rider table as the update left it, answers with the serialization of its available
  and approved riders, and stores that anew.
\<close>

theorem update_location_invalidates:
  assumes "update_location request_user pk request_data st = (resp, st')"
    and "status resp = HTTP_200_OK"
  shows "cache st' ''available_riders'' = None \<and>
         cache_get (cache st') ''available_riders'' now = None \<and>
         available_riders next_user now st' =
           (Response (Rider_list (map RiderSerializer
              (filter (\<lambda>r. is_available r \<and> verification_status r = ''approved'') (riders st'))))
              HTTP_200_OK,
            st'\<lparr>cache := cache_set (cache st') ''available_riders''
                    (map RiderSerializer
                       (filter (\<lambda>r. is_available r \<and> verification_status r = ''approved'')
                          (riders st'))) 300 now,
               effects := effects st' @ [Cache_get ''available_riders'', Db_read ''Rider'',
                            Cache_set ''available_riders'' 300]\<rparr>)"
proof (cases "RiderViewSet_get_object request_user pk st")
  case None
  from assms update_location_not_found [OF None, of request_data] show ?thesis by auto
next
  case (Some rider)
  from assms(1) update_location_found [OF Some, of request_data]
  have c: "cache st' = cache_delete (cache st) ''available_riders''" by auto
  then have g: "cache_get (cache st') ''available_riders'' now = None"
    by (simp add: cache_get_delete_same)
  from c have "cache st' ''available_riders'' = None" by (simp add: cache_delete_def)
  with g available_riders_miss [OF g] show ?thesis by simp
qed

theorem update_location_invalidates_witness:
  "cache_get (cache st_populated) ''available_riders'' 1100 = Some [RiderSerializer rider_A] \<and>
   status (fst (update_location user_U 1 [''current_latitude'' \<mapsto> 5] st_populated)) = HTTP_200_OK \<and>
   cache_get (cache st_relocated) ''available_riders'' 1100 = None \<and>
   fst (available_riders user_new 1100 st_relocated) =
     Response (Rider_list [RiderSerializer (rider_A\<lparr>current_latitude := Some 5\<rparr>)]) HTTP_200_OK"
proof -
  have hit: "cache_get (cache st_populated) ''available_riders'' 1100 =
               Some [RiderSerializer rider_A]"
    by (simp add: st_populated_eq cache_get_set_same)
  have run: "update_location user_U 1 [''current_latitude'' \<mapsto> 5] st_populated =
               (fst (update_location user_U 1 [''current_latitude'' \<mapsto> 5] st_populated),
                st_relocated)"
    by (simp add: st_relocated_def)
  have ok: "status (fst (update_location user_U 1 [''current_latitude'' \<mapsto> 5] st_populated)) =
              HTTP_200_OK"
    unfolding update_location_found [OF get_object_A] by simp
  have rows: "filter (\<lambda>r. is_available r \<and> verification_status r = ''approved'')
                (riders st_relocated) = [rider_A\<lparr>current_latitude := Some 5\<rparr>]"
    by (simp add: st_relocated_eq rider_A_def rider_B_def)
  from update_location_invalidates [OF run ok, of 1100 user_new] hit ok rows
  show ?thesis by simp
qed

lemma located_neither:
  "d ''current_latitude'' = None \<Longrightarrow> d ''current_longitude'' = None \<Longrightarrow> located d rider = rider"
  by (simp add: located_def)

lemma located_latitude:
  "d ''current_latitude'' = Some x \<Longrightarrow> d ''current_longitude'' = None \<Longrightarrow>
     located d rider = rider\<lparr>current_latitude := Some x\<rparr>"
  by (simp add: located_def)

lemma located_longitude:
  "d ''current_latitude'' = None \<Longrightarrow> d ''current_longitude'' = Some y \<Longrightarrow>
     located d rider = rider\<lparr>current_longitude := Some y\<rparr>"
  by (simp add: located_def)

lemma st0_member_A: "rider_A \<in> set (riders st0)"
  by (simp add: st0_def)

lemma st0_distinct: "distinct (map rider_pk (riders st0))"
  by (simp add: st0_def rider_A_def rider_B_def)

lemma rider_pk_A: "rider_pk rider_A = 1"
  by (simp add: rider_A_def)

text \<open>
  Claim C10. Let the requester be staff or the owner of a rider of the table, whose
  primary keys are distinct. A location update whose payload has neither coordinate
  answers with status 200 and the unchanged rider, leaves the Rider table as it was,
  and still records a write to the table and the deletion of the slot
  \<^verbatim>\<open>'available_riders'\<close>. With exactly one coordinate in the payload, the row of that
  rider is replaced by a copy in which only this coordinate has changed, and every
  other row stays. In each case the slot is empty afterwards.
\<close>

theorem update_location_frame:
  assumes "rider \<in> set (riders st)"
    and "distinct (map rider_pk (riders st))"
    and "is_staff u \<or> user_pk (rider_user rider) = user_pk u"
  shows
   "(d ''current_latitude'' = None \<and> d ''current_longitude'' = None \<longrightarrow>
       update_location u (rider_pk rider) d st =
         (Response (Rider_data (RiderSerializer rider)) HTTP_200_OK,
          st\<lparr>cache := cache_delete (cache st) ''available_riders'',
             effects := effects st @ [Db_read ''Rider'', Db_write ''Rider'',
                          Cache_delete ''available_riders'']\<rparr>)) \<and>
    (d ''current_latitude'' = Some x \<and> d ''current_longitude'' = None \<longrightarrow>
       update_location u (rider_pk rider) d st =
         (Response (Rider_data (RiderSerializer (rider\<lparr>current_latitude := Some x\<rparr>)))
            HTTP_200_OK,
          st\<lparr>riders := map (\<lambda>r. if rider_pk r = rider_pk rider
                                 then rider\<lparr>current_latitude := Some x\<rparr> else r) (riders st),
             cache := cache_delete (cache st) ''available_riders'',
             effects := effects st @ [Db_read ''Rider'', Db_write ''Rider'',
                          Cache_delete ''available_riders'']\<rparr>)) \<and>
    (d ''current_latitude'' = None \<and> d ''current_longitude'' = Some y \<longrightarrow>
       update_location u (rider_pk rider) d st =
         (Response (Rider_data (RiderSerializer (rider\<lparr>current_longitude := Some y\<rparr>)))
            HTTP_200_OK,
          st\<lparr>riders := map (\<lambda>r. if rider_pk r = rider_pk rider
                                 then rider\<lparr>current_longitude := Some y\<rparr> else r) (riders st),
             cache := cache_delete (cache st) ''available_riders'',
             effects := effects st @ [Db_read ''Rider'', Db_write ''Rider'',
                          Cache_delete ''available_riders'']\<rparr>)) \<and>
    cache (snd (update_location u (rider_pk rider) d st)) ''available_riders'' = None"
proof -
  note found = update_location_found [OF get_object_member [OF assms], of d]
  have neither: "update_location u (rider_pk rider) d st =
         (Response (Rider_data (RiderSerializer rider)) HTTP_200_OK,
          st\<lparr>cache := cache_delete (cache st) ''available_riders'',
             effects := effects st @ [Db_read ''Rider'', Db_write ''Rider'',
                          Cache_delete ''available_riders'']\<rparr>)"
    if "d ''current_latitude'' = None" and "d ''current_longitude'' = None"
    using found that by (simp add: located_neither save_rider_same [OF assms(1,2)])
  have lat: "update_location u (rider_pk rider) d st =
         (Response (Rider_data (RiderSerializer (rider\<lparr>current_latitude := Some x\<rparr>)))
            HTTP_200_OK,
          st\<lparr>riders := map (\<lambda>r. if rider_pk r = rider_pk rider
                                 then rider\<lparr>current_latitude := Some x\<rparr> else r) (riders st),
             cache := cache_delete (cache st) ''available_riders'',
             effects := effects st @ [Db_read ''Rider'', Db_write ''Rider'',
                          Cache_delete ''available_riders'']\<rparr>)"
    if "d ''current_latitude'' = Some x" and "d ''current_longitude'' = None"
    using found that
    by (simp add: located_latitude save_rider_member [OF assms(1)])
  have lon: "update_location u (rider_pk rider) d st =
         (Response (Rider_data (RiderSerializer (rider\<lparr>current_longitude := Some y\<rparr>)))
            HTTP_200_OK,
          st\<lparr>riders := map (\<lambda>r. if rider_pk r = rider_pk rider
                                 then rider\<lparr>current_longitude := Some y\<rparr> else r) (riders st),
             cache := cache_delete (cache st) ''available_riders'',
             effects := effects st @ [Db_read ''Rider'', Db_write ''Rider'',
                          Cache_delete ''available_riders'']\<rparr>)"
    if "d ''current_latitude'' = None" and "d ''current_longitude'' = Some y"
    using found that
    by (simp add: located_longitude save_rider_member [OF assms(1)])
  have slot: "cache (snd (update_location u (rider_pk rider) d st)) ''available_riders'' = None"
    unfolding found by (simp add: cache_delete_def)
  from neither lat lon slot show ?thesis by blast
qed

theorem update_location_frame_witness:
  "rider_A \<in> set (riders st0) \<and> distinct (map rider_pk (riders st0)) \<and>
   user_pk (rider_user rider_A) = user_pk user_U \<and>
   update_location user_U 1 Map.empty st0 =
     (Response (Rider_data (RiderSerializer rider_A)) HTTP_200_OK,
      st0\<lparr>cache := cache_delete (cache st0) ''available_riders'',
          effects := [Db_read ''Rider'', Db_write ''Rider'',
                      Cache_delete ''available_riders'']\<rparr>) \<and>
   riders (snd (update_location user_U 1 [''current_latitude'' \<mapsto> 7] st0)) =
     [rider_A\<lparr>current_latitude := Some 7\<rparr>, rider_B] \<and>
   riders (snd (update_location user_U 1 [''current_longitude'' \<mapsto> 8] st0)) =
     [rider_A\<lparr>current_longitude := Some 8\<rparr>, rider_B] \<and>
   update_location user_staff 1 Map.empty st0 =
     (Response (Rider_data (RiderSerializer rider_A)) HTTP_200_OK,
      st0\<lparr>cache := cache_delete (cache st0) ''available_riders'',
          effects := [Db_read ''Rider'', Db_write ''Rider'',
                      Cache_delete ''available_riders'']\<rparr>)"
proof -
  have own: "is_staff user_U \<or> user_pk (rider_user rider_A) = user_pk user_U"
    by (simp add: rider_A_def)
  have staff: "is_staff user_staff \<or> user_pk (rider_user rider_A) = user_pk user_staff"
    by (simp add: user_staff_def)
  have owner: "user_pk (rider_user rider_A) = user_pk user_U"
    by (simp add: rider_A_def)
  have e: "effects st0 = []" by (simp add: st0_def)
  have rows: "riders st0 = [rider_A, rider_B]" by (simp add: st0_def)
  have pkB: "rider_pk rider_B \<noteq> 1" by (simp add: rider_B_def)
  note f = update_location_frame [OF st0_member_A st0_distinct, unfolded rider_pk_A]
  from f [OF own, of Map.empty]
       f [OF own, of "[''current_latitude'' \<mapsto> 7]" 7]
       f [OF own, of "[''current_longitude'' \<mapsto> 8]" _ 8]
       f [OF staff, of Map.empty]
       owner st0_member_A st0_distinct
  show ?thesis by (simp add: e rows pkB rider_pk_A rider_A_def [symmetric])
qed

text \<open>
  Claim C6, evaluated where it fails. User U2, who is not staff, sends a location update
  for rider A, owned by user U, while the listing is cached. The requester-scoped
  queryset does not hold rider A, so \<^verbatim>\<open>get_object\<close> ends the request with status 404
  before the ownership test is reached: the answer is not the 403 of that test. The
  cache slot and the Rider table are as before; only the read is recorded.
\<close>

theorem update_location_by_stranger_evaluated:
  "update_location user_U2 1 [''current_latitude'' \<mapsto> 5] st_populated =
     (Response Not_found_detail HTTP_404_NOT_FOUND,
      st_populated\<lparr>effects := effects st_populated @ [Db_read ''Rider'']\<rparr>) \<and>
   \<not> is_staff user_U2 \<and> rider_A \<in> set (riders st_populated) \<and> rider_pk rider_A = 1 \<and>
   user_pk (rider_user rider_A) \<noteq> user_pk user_U2 \<and>
   status (fst (update_location user_U2 1 [''current_latitude'' \<mapsto> 5] st_populated)) \<noteq>
     HTTP_403_FORBIDDEN"
proof -
  have ns: "\<not> is_staff user_U2" by (simp add: user_U2_def)
  have other: "\<forall>r\<in>set (riders st_populated). rider_pk r = 1 \<longrightarrow>
                 user_pk (rider_user r) \<noteq> user_pk user_U2"
    by (simp add: st_populated_eq st0_def rider_A_def rider_B_def user_U_def user_U2_def)
  have m: "rider_A \<in> set (riders st_populated)" by (simp add: st_populated_eq st0_def)
  have o: "user_pk (rider_user rider_A) \<noteq> user_pk user_U2"
    by (simp add: rider_A_def user_U_def user_U2_def)
  show ?thesis
    unfolding update_location_other_owner [OF ns other]
    using ns m o by (simp add: rider_pk_A)
qed

section \<open>The generic update actions and the cache\<close>

lemma partial_update_state:
  "cache (snd (RiderViewSet_partial_update u pk d st)) = cache st \<and>
   (effects (snd (RiderViewSet_partial_update u pk d st)) = effects st @ [Db_read ''Rider''] \<or>
    effects (snd (RiderViewSet_partial_update u pk d st)) =
      effects st @ [Db_read ''Rider'', Db_write ''Rider''])"
  by (simp add: RiderViewSet_partial_update_def Let_def record_effects_def split: option.splits)

lemma update_state:
  "cache (snd (RiderViewSet_update u pk d st)) = cache st \<and>
   (effects (snd (RiderViewSet_update u pk d st)) = effects st @ [Db_read ''Rider''] \<or>
    effects (snd (RiderViewSet_update u pk d st)) =
      effects st @ [Db_read ''Rider'', Db_write ''Rider''])"
  by (simp add: RiderViewSet_update_def Let_def record_effects_def split: option.splits)

lemma available_riders_hit_fst:
  "cache_get (cache st) ''available_riders'' now = Some d \<Longrightarrow>
     fst (available_riders u now st) = Response (Rider_list d) HTTP_200_OK"
  by (simp add: available_riders_hit)

lemma get_object_B:
  "RiderViewSet_get_object user_U2 2 st_populated = Some rider_B"
  by (simp add: RiderViewSet_get_object_def RiderViewSet_get_queryset_def st_populated_eq
      st0_def rider_A_def rider_B_def user_U_def user_U2_def)

lemma patch_available:
  "RiderSerializer_partial_validated_data [''is_available'' \<mapsto> Boolean True] =
     Some \<lparr>patch_rider_profile_picture = None, patch_license_number = None,
           patch_license_picture = None, patch_id_number_picture = None,
           patch_verification_status = None, patch_verification_notes = None,
           patch_is_available = Some True, patch_current_latitude = None,
           patch_current_longitude = None\<rparr>"
  by (simp add: RiderSerializer_partial_validated_data_def partial_def boolean_field_def)

lemma st_stale_eq:
  "st_stale =
     st_populated\<lparr>riders := [rider_A, rider_B\<lparr>is_available := True\<rparr>],
       effects := effects st_populated @ [Db_read ''Rider'', Db_write ''Rider'']\<rparr>"
  unfolding st_stale_def RiderViewSet_partial_update_def Let_def get_object_record_effects
    get_object_B patch_available
  by (simp add: RiderSerializer_partial_update_def patched_def save_rider_def record_effects_def
      st_populated_eq st0_def rider_A_def rider_B_def)

text \<open>
  Claim C3. The generic update actions (PUT and PATCH on a rider) never touch the cache:
  whatever the payload and the outcome, the cache is as before, and the only calls
  recorded are a read of the Rider table and, on success, a write to it. Hence a listing
  that is cached and unexpired is still what \<open>available_riders\<close> answers after such
  an update, whatever the update wrote: when the cache was filled by a listing at time
  \<open>t0\<close>, a listing asked for after the update and less than 300 seconds after
  \<open>t0\<close> is the listing of the table as it was at \<open>t0\<close>. In the scenario of
  riders A and B, after B has been made available by a PATCH, that listing holds A
  alone.
\<close>

theorem generic_update_keeps_cache:
  "cache (snd (RiderViewSet_partial_update u pk d st)) = cache st \<and>
   cache (snd (RiderViewSet_update u pk d st)) = cache st \<and>
   (effects (snd (RiderViewSet_partial_update u pk d st)) = effects st @ [Db_read ''Rider''] \<or>
    effects (snd (RiderViewSet_partial_update u pk d st)) =
      effects st @ [Db_read ''Rider'', Db_write ''Rider'']) \<and>
   (effects (snd (RiderViewSet_update u pk d st)) = effects st @ [Db_read ''Rider''] \<or>
    effects (snd (RiderViewSet_update u pk d st)) =
      effects st @ [Db_read ''Rider'', Db_write ''Rider'']) \<and>
   (cache_get (cache st) ''available_riders'' now = Some v \<longrightarrow>
      fst (available_riders next_user now (snd (RiderViewSet_partial_update u pk d st))) =
        Response (Rider_list v) HTTP_200_OK \<and>
      fst (available_riders next_user now (snd (RiderViewSet_update u pk d st))) =
        Response (Rider_list v) HTTP_200_OK) \<and>
   (cache_get (cache st_before) ''available_riders'' t0 = None \<and>
    available_riders u0 t0 st_before = (r0, st) \<and> t0 \<le> now \<and> now < t0 + 300 \<longrightarrow>
      r0 = Response (Rider_list (map RiderSerializer
             (filter (\<lambda>r. is_available r \<and> verification_status r = ''approved'')
                (riders st_before)))) HTTP_200_OK \<and>
      fst (available_riders next_user now (snd (RiderViewSet_partial_update u pk d st))) = r0 \<and>
      fst (available_riders next_user now (snd (RiderViewSet_update u pk d st))) = r0)"
proof -
  note p = partial_update_state [of u pk d st] and q = update_state [of u pk d st]
  have hit: "fst (available_riders next_user now (snd (RiderViewSet_partial_update u pk d st))) =
          Response (Rider_list w) HTTP_200_OK \<and>
        fst (available_riders next_user now (snd (RiderViewSet_update u pk d st))) =
          Response (Rider_list w) HTTP_200_OK"
    if "cache_get (cache st) ''available_riders'' now = Some w" for w
  proof -
    from that p
    have "cache_get (cache (snd (RiderViewSet_partial_update u pk d st)))
            ''available_riders'' now = Some w"
      by simp
    moreover from that q
    have "cache_get (cache (snd (RiderViewSet_update u pk d st)))
            ''available_riders'' now = Some w"
      by simp
    ultimately show ?thesis by (simp add: available_riders_hit_fst)
  qed
  have scenario:
    "r0 = Response (Rider_list (map RiderSerializer
             (filter (\<lambda>r. is_available r \<and> verification_status r = ''approved'')
                (riders st_before)))) HTTP_200_OK \<and>
      fst (available_riders next_user now (snd (RiderViewSet_partial_update u pk d st))) = r0 \<and>
      fst (available_riders next_user now (snd (RiderViewSet_update u pk d st))) = r0"
    if miss: "cache_get (cache st_before) ''available_riders'' t0 = None"
      and run: "available_riders u0 t0 st_before = (r0, st)"
      and "t0 \<le> now" and fresh: "now < t0 + 300"
  proof -
    from run available_riders_miss [OF miss, of u0]
    have r0: "r0 = Response (Rider_list (map RiderSerializer
             (filter (\<lambda>r. is_available r \<and> verification_status r = ''approved'')
                (riders st_before)))) HTTP_200_OK"
      and c: "cache st = cache_set (cache st_before) ''available_riders''
                (map RiderSerializer
                   (filter (\<lambda>r. is_available r \<and> verification_status r = ''approved'')
                      (riders st_before))) 300 t0"
      by auto
    from c fresh have "cache_get (cache st) ''available_riders'' now =
        Some (map RiderSerializer
               (filter (\<lambda>r. is_available r \<and> verification_status r = ''approved'')
                  (riders st_before)))"
      by (simp add: cache_get_set_same)
    from hit [OF this] r0 show ?thesis by simp
  qed
  from p q hit [of v] scenario show ?thesis by blast
qed

theorem generic_update_keeps_cache_witness:
  "cache_get (cache st0) ''available_riders'' 1000 = None \<and>
   available_riders user_new 1000 st0 =
     (Response (Rider_list [RiderSerializer rider_A]) HTTP_200_OK, st_populated) \<and>
   (1000::nat) \<le> 1299 \<and> (1299::nat) < 1000 + 300 \<and>
   cache_get (cache st_populated) ''available_riders'' 1299 = Some [RiderSerializer rider_A] \<and>
   riders st_populated = [rider_A, rider_B] \<and>
   is_available rider_A \<and> verification_status rider_A = ''approved'' \<and>
   \<not> is_available rider_B \<and> verification_status rider_B = ''approved'' \<and>
   riders (snd (RiderViewSet_partial_update user_U2 2 [''is_available'' \<mapsto> Boolean True]
                  st_populated)) = [rider_A, rider_B\<lparr>is_available := True\<rparr>] \<and>
   fst (available_riders user_new 1299
          (snd (RiderViewSet_partial_update user_U2 2 [''is_available'' \<mapsto> Boolean True]
                  st_populated))) =
     Response (Rider_list [RiderSerializer rider_A]) HTTP_200_OK"
proof -
  have miss: "cache_get (cache st0) ''available_riders'' 1000 = None"
    by (simp add: st0_def cache_get_def)
  have run: "available_riders user_new 1000 st0 =
               (Response (Rider_list [RiderSerializer rider_A]) HTTP_200_OK, st_populated)"
    unfolding st_populated_def available_riders_miss [OF miss] filter_st0 by simp
  have t: "(1000::nat) \<le> 1299" "(1299::nat) < 1000 + 300" by simp_all
  have hit: "cache_get (cache st_populated) ''available_riders'' 1299 =
               Some [RiderSerializer rider_A]"
    by (simp add: st_populated_eq cache_get_set_same)
  have rows: "riders st_populated = [rider_A, rider_B]"
    by (simp add: st_populated_eq st0_def)
  have a: "is_available rider_A \<and> verification_status rider_A = ''approved''"
    by (simp add: rider_A_def)
  have b: "\<not> is_available rider_B \<and> verification_status rider_B = ''approved''"
    by (simp add: rider_B_def)
  have after: "riders (snd (RiderViewSet_partial_update user_U2 2
                 [''is_available'' \<mapsto> Boolean True] st_populated)) =
               [rider_A, rider_B\<lparr>is_available := True\<rparr>]"
    unfolding st_stale_def [symmetric] by (simp add: st_stale_eq)
  from generic_update_keeps_cache [of user_U2 2 "[''is_available'' \<mapsto> Boolean True]"
         st_populated 1299 "[RiderSerializer rider_A]" user_new st0 1000 user_new
         "Response (Rider_list [RiderSerializer rider_A]) HTTP_200_OK"]
       miss run t hit
  have "fst (available_riders user_new 1299
          (snd (RiderViewSet_partial_update user_U2 2 [''is_available'' \<mapsto> Boolean True]
                  st_populated))) =
     Response (Rider_list [RiderSerializer rider_A]) HTTP_200_OK"
    by blast
  with miss run t hit rows a b after show ?thesis by simp
qed

section \<open>Repeated listings\<close>

lemma st_none_rows: "riders st_none = [rider_B]"
  by (simp add: st_none_def)

lemma st_none_cache: "cache st_none = Map.empty"
  by (simp add: st_none_def st0_def)

text \<open>
  Claim C9. When no rider of the table is both available and approved, a call of
  \<open>available_riders\<close> that misses the cache answers with the empty list and stores
  the empty list in the slot like any other result. A second call less than 300 seconds
  later finds it there (the test is for \<^verbatim>\<open>None\<close>, and the empty list is not
  \<^verbatim>\<open>None\<close>): it answers with the empty list again, and all it does is the one
  \<^verbatim>\<open>cache.get\<close>.
\<close>

theorem empty_listing_is_cached:
  assumes "\<forall>r\<in>set (riders st). \<not> (is_available r \<and> verification_status r = ''approved'')"
    and "cache_get (cache st) ''available_riders'' now = None"
    and "available_riders u1 now st = (r1, st1)"
    and "now \<le> now2" and "now2 < now + 300"
    and "available_riders u2 now2 st1 = (r2, st2)"
  shows "r1 = Response (Rider_list []) HTTP_200_OK \<and>
         cache st1 ''available_riders'' = Some \<lparr>entry_value = [], expires_at = now + 300\<rparr> \<and>
         cache_get (cache st1) ''available_riders'' now2 = Some [] \<and>
         r2 = Response (Rider_list []) HTTP_200_OK \<and>
         st2 = st1\<lparr>effects := effects st1 @ [Cache_get ''available_riders'']\<rparr>"
proof -
  from assms(1)
  have none: "filter (\<lambda>r. is_available r \<and> verification_status r = ''approved'') (riders st) = []"
    by (simp add: filter_empty_conv)
  from assms(3) available_riders_miss [OF assms(2), of u1]
  have r1: "r1 = Response (Rider_list []) HTTP_200_OK"
    and st1: "st1 = st\<lparr>cache := cache_set (cache st) ''available_riders'' [] 300 now,
               effects := effects st @ [Cache_get ''available_riders'', Db_read ''Rider'',
                            Cache_set ''available_riders'' 300]\<rparr>"
    by (simp_all add: none)
  from st1 have slot: "cache st1 ''available_riders'' =
                         Some \<lparr>entry_value = [], expires_at = now + 300\<rparr>"
    by (simp add: cache_set_def)
  from st1 assms(5) have hit: "cache_get (cache st1) ''available_riders'' now2 = Some []"
    by (simp add: cache_get_set_same)
  from assms(6) available_riders_hit [OF hit, of u2]
  have "r2 = Response (Rider_list []) HTTP_200_OK"
    and "st2 = st1\<lparr>effects := effects st1 @ [Cache_get ''available_riders'']\<rparr>"
    by simp_all
  with r1 slot hit show ?thesis by simp
qed

theorem empty_listing_is_cached_witness:
  "riders st_none = [rider_B] \<and> \<not> is_available rider_B \<and>
   cache_get (cache st_none) ''available_riders'' 1000 = None \<and>
   (1000::nat) \<le> 1200 \<and> (1200::nat) < 1000 + 300 \<and>
   fst (available_riders user_new 1000 st_none) = Response (Rider_list []) HTTP_200_OK \<and>
   fst (available_riders user_U 1200 (snd (available_riders user_new 1000 st_none))) =
     Response (Rider_list []) HTTP_200_OK \<and>
   effects (snd (available_riders user_U 1200 (snd (available_riders user_new 1000 st_none)))) =
     effects (snd (available_riders user_new 1000 st_none)) @ [Cache_get ''available_riders'']"
proof -
  have h1: "\<forall>r\<in>set (riders st_none).
              \<not> (is_available r \<and> verification_status r = ''approved'')"
    by (simp add: st_none_rows rider_B_def)
  have h2: "cache_get (cache st_none) ''available_riders'' 1000 = None"
    by (simp add: st_none_cache cache_get_def)
  have h3: "available_riders user_new 1000 st_none =
              (fst (available_riders user_new 1000 st_none),
               snd (available_riders user_new 1000 st_none))"
    by simp
  have h4: "(1000::nat) \<le> 1200" and h5: "(1200::nat) < 1000 + 300" by simp_all
  have h6: "available_riders user_U 1200 (snd (available_riders user_new 1000 st_none)) =
              (fst (available_riders user_U 1200 (snd (available_riders user_new 1000 st_none))),
               snd (available_riders user_U 1200 (snd (available_riders user_new 1000 st_none))))"
    by simp
  have b: "\<not> is_available rider_B" by (simp add: rider_B_def)
  from empty_listing_is_cached [OF h1 h2 h3 h4 h5 h6] b h2
  show ?thesis by (simp add: st_none_rows)
qed

lemma available_riders_cases:
  assumes "available_riders u now st = (r, st')"
  shows "(\<exists>d. cache_get (cache st) ''available_riders'' now = Some d \<and>
              r = Response (Rider_list d) HTTP_200_OK \<and> cache st' = cache st \<and>
              effects st' = effects st @ [Cache_get ''available_riders'']) \<or>
         (\<exists>d. cache_get (cache st) ''available_riders'' now = None \<and>
              r = Response (Rider_list d) HTTP_200_OK \<and>
              cache st' = cache_set (cache st) ''available_riders'' d 300 now \<and>
              effects st' = effects st @ [Cache_get ''available_riders'', Db_read ''Rider'',
                                          Cache_set ''available_riders'' 300])"
proof (cases "cache_get (cache st) ''available_riders'' now")
  case None
  from assms available_riders_miss [OF None, of u] show ?thesis using None by auto
next
  case (Some d)
  from assms available_riders_hit [OF Some, of u] show ?thesis using Some by auto
qed

lemma st_stale_cache: "cache st_stale = cache st_populated"
  by (simp add: st_stale_eq)

lemma rider_create_keeps_cache: "cache (snd (RiderViewSet_create u d now st)) = cache st"
  by (simp add: RiderViewSet_create_def RiderViewSet_perform_create_def Let_def
      record_effects_def split: option.splits)

lemma passenger_create_keeps_cache:
  "cache (snd (PassengerViewSet_create u d now st)) = cache st"
  by (simp add: PassengerViewSet_create_def PassengerViewSet_perform_create_def Let_def
      record_effects_def split: option.splits)

lemma other_requests_keep_cache:
  "cache (snd (RiderViewSet_list u st)) = cache st"
  "cache (snd (RiderViewSet_retrieve u pk st)) = cache st"
  "cache (snd (RiderViewSet_my_profile u st)) = cache st"
  "cache (snd (RiderViewSet_create u d now st)) = cache st"
  "cache (snd (PassengerViewSet_list u st)) = cache st"
  "cache (snd (PassengerViewSet_retrieve u pk st)) = cache st"
  "cache (snd (PassengerViewSet_my_profile u st)) = cache st"
  "cache (snd (PassengerViewSet_create u d now st)) = cache st"
proof -
  show "cache (snd (RiderViewSet_list u st)) = cache st"
    by (simp add: RiderViewSet_list_def record_effects_def)
  show "cache (snd (RiderViewSet_retrieve u pk st)) = cache st"
    by (simp add: RiderViewSet_retrieve_def Let_def record_effects_def split: option.splits)
  show "cache (snd (RiderViewSet_my_profile u st)) = cache st"
    by (simp add: RiderViewSet_my_profile_def Let_def record_effects_def split: list.splits)
  show "cache (snd (RiderViewSet_create u d now st)) = cache st"
    using rider_create_keeps_cache [of u d now st] .
  show "cache (snd (PassengerViewSet_list u st)) = cache st"
    by (simp add: PassengerViewSet_list_def record_effects_def)
  show "cache (snd (PassengerViewSet_retrieve u pk st)) = cache st"
    by (simp add: PassengerViewSet_retrieve_def Let_def record_effects_def split: option.splits)
  show "cache (snd (PassengerViewSet_my_profile u st)) = cache st"
    by (simp add: PassengerViewSet_my_profile_def Let_def record_effects_def split: list.splits)
  show "cache (snd (PassengerViewSet_create u d now st)) = cache st"
    using passenger_create_keeps_cache [of u d now st] .
qed

text \<open>
  Claim C8, as the code has it. Take two calls of \<open>available_riders\<close> less than 300
  seconds apart, with any requests in between that leave the cache as the first call
  left it: every request other than a location update does (the generic update actions
  by \<open>partial_update_state\<close> and \<open>update_state\<close>, the others by
  \<open>other_requests_keep_cache\<close>). The two calls read the Rider table at most once
  between them. When the first call missed the cache (and so stored the entry), or when
  the entry in the slot has not expired by the second call, the second call is served
  from the slot: it answers exactly as the first did, and all it does is the one
  \<^verbatim>\<open>cache.get\<close>.
\<close>

theorem available_riders_twice:
  assumes "available_riders u1 now1 st = (r1, st1)"
    and "cache st1' = cache st1"
    and "available_riders u2 now2 st1' = (r2, st2)"
    and "now1 \<le> now2" and "now2 < now1 + 300"
  shows "length (filter (\<lambda>e. e = Db_read ''Rider'') (effects st1)) +
           length (filter (\<lambda>e. e = Db_read ''Rider'') (effects st2)) \<le>
         length (filter (\<lambda>e. e = Db_read ''Rider'') (effects st)) +
           length (filter (\<lambda>e. e = Db_read ''Rider'') (effects st1')) + 1 \<and>
         (cache_get (cache st) ''available_riders'' now1 = None \<or>
          cache_get (cache st1) ''available_riders'' now2 \<noteq> None \<longrightarrow>
            r2 = r1 \<and> st2 = st1'\<lparr>effects := effects st1' @ [Cache_get ''available_riders'']\<rparr>)"
proof -
  note c1 = available_riders_cases [OF assms(1)]
  note c2 = available_riders_cases [OF assms(3)]
  have count: "length (filter (\<lambda>e. e = Db_read ''Rider'') (effects st1)) +
           length (filter (\<lambda>e. e = Db_read ''Rider'') (effects st2)) \<le>
         length (filter (\<lambda>e. e = Db_read ''Rider'') (effects st)) +
           length (filter (\<lambda>e. e = Db_read ''Rider'') (effects st1')) + 1"
  proof (cases "cache_get (cache st) ''available_riders'' now1")
    case None
    with c1 obtain d where st1: "cache st1 = cache_set (cache st) ''available_riders'' d 300 now1"
      and e1: "effects st1 = effects st @ [Cache_get ''available_riders'', Db_read ''Rider'',
                                          Cache_set ''available_riders'' 300]"
      by auto
    from st1 assms(2,5) have "cache_get (cache st1') ''available_riders'' now2 = Some d"
      by (simp add: cache_get_set_same)
    with c2 have "effects st2 = effects st1' @ [Cache_get ''available_riders'']" by auto
    with e1 show ?thesis by simp
  next
    case (Some d)
    with c1 have e1: "effects st1 = effects st @ [Cache_get ''available_riders'']" by auto
    from c2 have "effects st2 = effects st1' @ [Cache_get ''available_riders''] \<or>
                  effects st2 = effects st1' @ [Cache_get ''available_riders'', Db_read ''Rider'',
                                          Cache_set ''available_riders'' 300]"
      by auto
    with e1 show ?thesis by auto
  qed
  have same: "r2 = r1 \<and> st2 = st1'\<lparr>effects := effects st1' @ [Cache_get ''available_riders'']\<rparr>"
    if h: "cache_get (cache st) ''available_riders'' now1 = None \<or>
        cache_get (cache st1) ''available_riders'' now2 \<noteq> None"
  proof (cases "cache_get (cache st) ''available_riders'' now1")
    case None
    with c1 obtain d where r1: "r1 = Response (Rider_list d) HTTP_200_OK"
      and st1: "cache st1 = cache_set (cache st) ''available_riders'' d 300 now1"
      by auto
    from st1 assms(2,5) have hit: "cache_get (cache st1') ''available_riders'' now2 = Some d"
      by (simp add: cache_get_set_same)
    from assms(3) available_riders_hit [OF hit, of u2] r1 show ?thesis by simp
  next
    case (Some d)
    with c1 have r1: "r1 = Response (Rider_list d) HTTP_200_OK"
      and st1: "cache st1 = cache st"
      by auto
    from h Some assms(2)
    obtain d' where hit: "cache_get (cache st1') ''available_riders'' now2 = Some d'"
      by auto
    from Some hit st1 assms(2) have "d' = d"
      by (auto simp: cache_get_def split: option.splits if_splits)
    with assms(3) available_riders_hit [OF hit, of u2] r1 show ?thesis by simp
  qed
  from count same show ?thesis by blast
qed

theorem available_riders_twice_witness:
  "cache_get (cache st0) ''available_riders'' 1000 = None \<and>
   (1000::nat) \<le> 1299 \<and> (1299::nat) < 1000 + 300 \<and>
   snd (available_riders user_new 1000 st0) = st_populated \<and>
   snd (RiderViewSet_partial_update user_U2 2 [''is_available'' \<mapsto> Boolean True] st_populated) =
     st_stale \<and>
   riders st_stale = [rider_A, rider_B\<lparr>is_available := True\<rparr>] \<and>
   cache st_stale = cache st_populated \<and>
   fst (available_riders user_new 1000 st0) =
     Response (Rider_list [RiderSerializer rider_A]) HTTP_200_OK \<and>
   fst (available_riders user_U 1299 st_stale) =
     Response (Rider_list [RiderSerializer rider_A]) HTTP_200_OK \<and>
   effects (snd (available_riders user_U 1299 st_stale)) =
     [Cache_get ''available_riders'', Db_read ''Rider'', Cache_set ''available_riders'' 300,
      Db_read ''Rider'', Db_write ''Rider'', Cache_get ''available_riders'']"
proof -
  have miss: "cache_get (cache st0) ''available_riders'' 1000 = None"
    by (simp add: st0_def cache_get_def)
  have h1: "available_riders user_new 1000 st0 =
              (fst (available_riders user_new 1000 st0), st_populated)"
    by (simp add: st_populated_def)
  have h2: "available_riders user_U 1299 st_stale =
              (fst (available_riders user_U 1299 st_stale),
               snd (available_riders user_U 1299 st_stale))"
    by simp
  have h3: "(1000::nat) \<le> 1299" and h4: "(1299::nat) < 1000 + 300" by simp_all
  have e: "effects st_stale =
             [Cache_get ''available_riders'', Db_read ''Rider'',
              Cache_set ''available_riders'' 300, Db_read ''Rider'', Db_write ''Rider'']"
    by (simp add: st_stale_eq st_populated_eq)
  have rows: "riders st_stale = [rider_A, rider_B\<lparr>is_available := True\<rparr>]"
    by (simp add: st_stale_eq)
  have first: "fst (available_riders user_new 1000 st0) =
                 Response (Rider_list [RiderSerializer rider_A]) HTTP_200_OK"
    by (simp add: available_riders_miss [OF miss] filter_st0)
  from available_riders_twice [OF h1 st_stale_cache h2 h3 h4] miss first rows st_stale_cache
  show ?thesis by (simp add: e st_populated_def [symmetric] st_stale_def [symmetric])
qed

text \<open>
  The 300 seconds of an entry run from the call that stored it, not from the first of two
  later calls. The listing is cached at time 1000 and rider B becomes available through
  the generic update action. A call at 1299 is served the entry of time 1000, which
  expires at 1300; a call at 1301, two seconds later and with nothing in between,
  recomputes, and its payload differs.
\<close>

theorem available_riders_twice_counterexample:
  "fst (available_riders user_new 1299 st_stale) =
     Response (Rider_list [RiderSerializer rider_A]) HTTP_200_OK \<and>
   fst (available_riders user_new 1301 (snd (available_riders user_new 1299 st_stale))) =
     Response (Rider_list [RiderSerializer rider_A,
                           RiderSerializer (rider_B\<lparr>is_available := True\<rparr>)]) HTTP_200_OK \<and>
   fst (available_riders user_new 1299 st_stale) \<noteq>
     fst (available_riders user_new 1301 (snd (available_riders user_new 1299 st_stale))) \<and>
   (1299::nat) \<le> 1301 \<and> (1301::nat) < 1299 + 300"
proof -
  have hit: "cache_get (cache st_stale) ''available_riders'' 1299 = Some [RiderSerializer rider_A]"
    by (simp add: st_stale_cache st_populated_eq cache_get_set_same)
  have miss: "cache_get (cache (st_stale\<lparr>effects := effects st_stale @
                  [Cache_get ''available_riders'']\<rparr>)) ''available_riders'' 1301 = None"
    by (simp add: st_stale_cache st_populated_eq cache_get_set_same)
  have rows: "filter (\<lambda>r. is_available r \<and> verification_status r = ''approved'')
                (riders (st_stale\<lparr>effects := effects st_stale @
                  [Cache_get ''available_riders'']\<rparr>)) =
              [rider_A, rider_B\<lparr>is_available := True\<rparr>]"
    by (simp add: st_stale_eq rider_A_def rider_B_def)
  have first: "fst (available_riders user_new 1299 st_stale) =
                 Response (Rider_list [RiderSerializer rider_A]) HTTP_200_OK"
    by (simp add: available_riders_hit [OF hit])
  have second: "fst (available_riders user_new 1301 (snd (available_riders user_new 1299 st_stale))) =
     Response (Rider_list [RiderSerializer rider_A,
                           RiderSerializer (rider_B\<lparr>is_available := True\<rparr>)]) HTTP_200_OK"
    unfolding available_riders_hit [OF hit] snd_conv available_riders_miss [OF miss] rows
    by simp
  show ?thesis unfolding first second by simp
qed

section \<open>Listing and retrieving profiles\<close>

lemma passenger_get_object_record_effects [simp]:
  "PassengerViewSet_get_object u pk (record_effects es st) = PassengerViewSet_get_object u pk st"
  by (simp add: PassengerViewSet_get_object_def PassengerViewSet_get_queryset_def
      record_effects_def)

lemma passenger_get_object_owner_or_staff:
  assumes "PassengerViewSet_get_object u pk st = Some p"
  shows "p \<in> set (passengers st) \<and> passenger_pk p = pk \<and>
         (is_staff u \<or> user_pk (passenger_user p) = user_pk u)"
  using find_SomeD [OF assms [unfolded PassengerViewSet_get_object_def]]
  by (auto simp: PassengerViewSet_get_queryset_def split: if_splits)

lemma rider_retrieve_hidden:
  assumes "\<not> is_staff u" and "distinct (map rider_pk (riders st))"
    and "r \<in> set (riders st)" and "user_pk (rider_user r) \<noteq> user_pk u"
  shows "fst (RiderViewSet_retrieve u (rider_pk r) st) =
           Response Not_found_detail HTTP_404_NOT_FOUND"
proof -
  have "\<forall>x\<in>set (riders st). rider_pk x = rider_pk r \<longrightarrow> user_pk (rider_user x) \<noteq> user_pk u"
    using assms(2-4) by (auto simp: distinct_map inj_on_def)
  from get_object_hidden [OF assms(1) this] show ?thesis
    by (simp add: RiderViewSet_retrieve_def Let_def)
qed

lemma passenger_retrieve_hidden:
  assumes "\<not> is_staff u" and "distinct (map passenger_pk (passengers st))"
    and "p \<in> set (passengers st)" and "user_pk (passenger_user p) \<noteq> user_pk u"
  shows "fst (PassengerViewSet_retrieve u (passenger_pk p) st) =
           Response Not_found_detail HTTP_404_NOT_FOUND"
proof (cases "PassengerViewSet_get_object u (passenger_pk p) st")
  case None
  then show ?thesis by (simp add: PassengerViewSet_retrieve_def Let_def)
next
  case (Some q)
  from passenger_get_object_owner_or_staff [OF Some] assms(1)
  have "q \<in> set (passengers st)" and "passenger_pk q = passenger_pk p"
    and "user_pk (passenger_user q) = user_pk u"
    by auto
  with assms(2-4) show ?thesis by (auto simp: distinct_map inj_on_def)
qed

lemma view_pk_rider [simp]: "view_pk (rider_user (RiderSerializer r)) = user_pk (rider_user r)"
  by (simp add: RiderSerializer_def UserSerializer_def)

lemma view_pk_passenger [simp]:
  "view_pk (passenger_user (PassengerSerializer p)) = user_pk (passenger_user p)"
  by (simp add: PassengerSerializer_def UserSerializer_def)

lemma st0_passengers: "passengers st0 = [passenger_P]"
  by (simp add: st0_def)

lemma st0_riders: "riders st0 = [rider_A, rider_B]"
  by (simp add: st0_def)

text \<open>
  Claim C4. For every requester, the list action on riders and on passengers answers
  with the serialization of exactly the rows that \<open>canAccess\<close> permits. For a staff
  requester that is every row of the table. For a requester who is not staff, every
  listed profile has the requester as its owner, so no row owned by somebody else is
  listed; and, primary keys being distinct, to retrieve such a row is answered with
  status 404.
\<close>

theorem list_is_permitted_subset:
  "fst (RiderViewSet_list u st) =
     Response (Rider_list (map RiderSerializer
       (filter (\<lambda>r. canAccess (user_pk u) (user_pk (rider_user r)) (is_staff u)) (riders st))))
       HTTP_200_OK \<and>
   fst (PassengerViewSet_list u st) =
     Response (Passenger_list (map PassengerSerializer
       (filter (\<lambda>p. canAccess (user_pk u) (user_pk (passenger_user p)) (is_staff u))
          (passengers st)))) HTTP_200_OK \<and>
   (is_staff u \<longrightarrow>
      fst (RiderViewSet_list u st) =
        Response (Rider_list (map RiderSerializer (riders st))) HTTP_200_OK \<and>
      fst (PassengerViewSet_list u st) =
        Response (Passenger_list (map PassengerSerializer (passengers st))) HTTP_200_OK) \<and>
   (\<not> is_staff u \<longrightarrow>
      (\<forall>rs. data (fst (RiderViewSet_list u st)) = Rider_list rs \<longrightarrow>
         (\<forall>v\<in>set rs. view_pk (rider_user v) = user_pk u) \<and>
         (\<forall>r\<in>set (riders st). user_pk (rider_user r) \<noteq> user_pk u \<longrightarrow>
            RiderSerializer r \<notin> set rs)) \<and>
      (\<forall>ps. data (fst (PassengerViewSet_list u st)) = Passenger_list ps \<longrightarrow>
         (\<forall>v\<in>set ps. view_pk (passenger_user v) = user_pk u) \<and>
         (\<forall>p\<in>set (passengers st). user_pk (passenger_user p) \<noteq> user_pk u \<longrightarrow>
            PassengerSerializer p \<notin> set ps)) \<and>
      (distinct (map rider_pk (riders st)) \<longrightarrow>
         (\<forall>r\<in>set (riders st). user_pk (rider_user r) \<noteq> user_pk u \<longrightarrow>
            fst (RiderViewSet_retrieve u (rider_pk r) st) =
              Response Not_found_detail HTTP_404_NOT_FOUND)) \<and>
      (distinct (map passenger_pk (passengers st)) \<longrightarrow>
         (\<forall>p\<in>set (passengers st). user_pk (passenger_user p) \<noteq> user_pk u \<longrightarrow>
            fst (PassengerViewSet_retrieve u (passenger_pk p) st) =
              Response Not_found_detail HTTP_404_NOT_FOUND)))"
proof -
  have rl: "fst (RiderViewSet_list u st) =
     Response (Rider_list (map RiderSerializer
       (filter (\<lambda>r. canAccess (user_pk u) (user_pk (rider_user r)) (is_staff u)) (riders st))))
       HTTP_200_OK"
    by (simp add: RiderViewSet_list_def RiderViewSet_get_queryset_def canAccess_def eq_commute)
  have pl: "fst (PassengerViewSet_list u st) =
     Response (Passenger_list (map PassengerSerializer
       (filter (\<lambda>p. canAccess (user_pk u) (user_pk (passenger_user p)) (is_staff u))
          (passengers st)))) HTTP_200_OK"
    by (simp add: PassengerViewSet_list_def PassengerViewSet_get_queryset_def canAccess_def
        eq_commute)
  have staff: "fst (RiderViewSet_list u st) =
        Response (Rider_list (map RiderSerializer (riders st))) HTTP_200_OK \<and>
      fst (PassengerViewSet_list u st) =
        Response (Passenger_list (map PassengerSerializer (passengers st))) HTTP_200_OK"
    if "is_staff u"
    using that by (simp add: rl pl canAccess_def)
  have r_own: "(\<forall>v\<in>set rs. view_pk (rider_user v) = user_pk u) \<and>
         (\<forall>r\<in>set (riders st). user_pk (rider_user r) \<noteq> user_pk u \<longrightarrow>
            RiderSerializer r \<notin> set rs)"
    if "\<not> is_staff u" and "data (fst (RiderViewSet_list u st)) = Rider_list rs" for rs
  proof -
    from that have rs: "rs = map RiderSerializer
        (filter (\<lambda>r. user_pk (rider_user r) = user_pk u) (riders st))"
      by (simp add: rl canAccess_def)
    have own: "\<forall>v\<in>set rs. view_pk (rider_user v) = user_pk u"
      unfolding rs by auto
    then have "RiderSerializer r \<notin> set rs" if "user_pk (rider_user r) \<noteq> user_pk u" for r
      using that view_pk_rider [of r] by metis
    with own show ?thesis by blast
  qed
  have p_own: "(\<forall>v\<in>set ps. view_pk (passenger_user v) = user_pk u) \<and>
         (\<forall>p\<in>set (passengers st). user_pk (passenger_user p) \<noteq> user_pk u \<longrightarrow>
            PassengerSerializer p \<notin> set ps)"
    if "\<not> is_staff u" and "data (fst (PassengerViewSet_list u st)) = Passenger_list ps" for ps
  proof -
    from that have ps: "ps = map PassengerSerializer
        (filter (\<lambda>p. user_pk (passenger_user p) = user_pk u) (passengers st))"
      by (simp add: pl canAccess_def)
    have own: "\<forall>v\<in>set ps. view_pk (passenger_user v) = user_pk u"
      unfolding ps by auto
    then have "PassengerSerializer p \<notin> set ps"
      if "user_pk (passenger_user p) \<noteq> user_pk u" for p
      using that view_pk_passenger [of p] by metis
    with own show ?thesis by blast
  qed
  from rl pl staff r_own p_own rider_retrieve_hidden [of u st] passenger_retrieve_hidden [of u st]
  show ?thesis by blast
qed

theorem list_is_permitted_subset_witness:
  "is_staff user_staff \<and>
   fst (RiderViewSet_list user_staff st0) =
     Response (Rider_list [RiderSerializer rider_A, RiderSerializer rider_B]) HTTP_200_OK \<and>
   fst (PassengerViewSet_list user_staff st0) =
     Response (Passenger_list [PassengerSerializer passenger_P]) HTTP_200_OK \<and>
   \<not> is_staff user_U \<and>
   user_pk (rider_user rider_B) \<noteq> user_pk user_U \<and>
   user_pk (passenger_user passenger_P) \<noteq> user_pk user_U \<and>
   fst (RiderViewSet_list user_U st0) =
     Response (Rider_list [RiderSerializer rider_A]) HTTP_200_OK \<and>
   RiderSerializer rider_B \<notin> set [RiderSerializer rider_A] \<and>
   fst (PassengerViewSet_list user_U st0) = Response (Passenger_list []) HTTP_200_OK \<and>
   distinct (map rider_pk (riders st0)) \<and> distinct (map passenger_pk (passengers st0)) \<and>
   fst (RiderViewSet_retrieve user_U 2 st0) = Response Not_found_detail HTTP_404_NOT_FOUND \<and>
   fst (PassengerViewSet_retrieve user_U 1 st0) = Response Not_found_detail HTTP_404_NOT_FOUND"
proof -
  note staff = list_is_permitted_subset [of user_staff st0]
  note plain = list_is_permitted_subset [of user_U st0]
  have s: "is_staff user_staff" by (simp add: user_staff_def)
  have n: "\<not> is_staff user_U" by (simp add: user_U_def)
  have ob: "user_pk (rider_user rider_B) \<noteq> user_pk user_U"
    by (simp add: rider_B_def user_U_def user_U2_def)
  have op: "user_pk (passenger_user passenger_P) \<noteq> user_pk user_U"
    by (simp add: passenger_P_def user_U_def user_U2_def)
  have oa: "user_pk (rider_user rider_A) = user_pk user_U"
    by (simp add: rider_A_def)
  have dp: "distinct (map passenger_pk (passengers st0))"
    by (simp add: st0_passengers)
  have pkb: "rider_pk rider_B = 2" by (simp add: rider_B_def)
  have pkp: "passenger_pk passenger_P = 1" by (simp add: passenger_P_def)
  from staff s have
    "fst (RiderViewSet_list user_staff st0) =
       Response (Rider_list (map RiderSerializer (riders st0))) HTTP_200_OK"
    "fst (PassengerViewSet_list user_staff st0) =
       Response (Passenger_list (map PassengerSerializer (passengers st0))) HTTP_200_OK"
    by blast+
  then have all:
    "fst (RiderViewSet_list user_staff st0) =
       Response (Rider_list [RiderSerializer rider_A, RiderSerializer rider_B]) HTTP_200_OK"
    "fst (PassengerViewSet_list user_staff st0) =
       Response (Passenger_list [PassengerSerializer passenger_P]) HTTP_200_OK"
    by (simp_all add: st0_riders st0_passengers)
  from plain have
    "fst (RiderViewSet_list user_U st0) =
       Response (Rider_list (map RiderSerializer
         (filter (\<lambda>r. canAccess (user_pk user_U) (user_pk (rider_user r)) (is_staff user_U))
            (riders st0)))) HTTP_200_OK"
    "fst (PassengerViewSet_list user_U st0) =
       Response (Passenger_list (map PassengerSerializer
         (filter (\<lambda>p. canAccess (user_pk user_U) (user_pk (passenger_user p)) (is_staff user_U))
            (passengers st0)))) HTTP_200_OK"
    by blast+
  then have own:
    "fst (RiderViewSet_list user_U st0) =
       Response (Rider_list [RiderSerializer rider_A]) HTTP_200_OK"
    "fst (PassengerViewSet_list user_U st0) = Response (Passenger_list []) HTTP_200_OK"
    by (simp_all add: st0_riders st0_passengers canAccess_def n oa ob op)
  have mb: "rider_B \<in> set (riders st0)" by (simp add: st0_riders)
  have mp: "passenger_P \<in> set (passengers st0)" by (simp add: st0_passengers)
  from own(1) have d: "data (fst (RiderViewSet_list user_U st0)) = Rider_list [RiderSerializer rider_A]"
    by simp
  from plain n d mb ob have hidden: "RiderSerializer rider_B \<notin> set [RiderSerializer rider_A]"
    by blast
  from plain n st0_distinct mb ob have
    "fst (RiderViewSet_retrieve user_U (rider_pk rider_B) st0) =
       Response Not_found_detail HTTP_404_NOT_FOUND"
    by blast
  then have r404:
    "fst (RiderViewSet_retrieve user_U 2 st0) = Response Not_found_detail HTTP_404_NOT_FOUND"
    unfolding pkb .
  from plain n dp mp op have
    "fst (PassengerViewSet_retrieve user_U (passenger_pk passenger_P) st0) =
       Response Not_found_detail HTTP_404_NOT_FOUND"
    by blast
  then have p404:
    "fst (PassengerViewSet_retrieve user_U 1 st0) = Response Not_found_detail HTTP_404_NOT_FOUND"
    unfolding pkp .
  from s n ob op all own hidden st0_distinct dp r404 p404 show ?thesis by blast
qed

section \<open>Creating a profile\<close>

lemma text_field_other:
  "key \<noteq> k \<Longrightarrow> text_field (d(k := x)) key = text_field d key"
  by (simp add: text_field_def)

lemma boolean_field_other:
  "key \<noteq> k \<Longrightarrow> boolean_field (d(k := x)) key = boolean_field d key"
  by (simp add: boolean_field_def)

lemma decimal_field_other:
  "key \<noteq> k \<Longrightarrow> decimal_field (d(k := x)) key = decimal_field d key"
  by (simp add: decimal_field_def)

lemma PassengerSerializer_ignores:
  "PassengerSerializer_validated_data (d(''user'' := x, ''owner'' := y)) =
     PassengerSerializer_validated_data d"
  by (simp add: PassengerSerializer_validated_data_def text_field_other boolean_field_other)

lemma RiderSerializer_ignores:
  "RiderSerializer_validated_data (d(''user'' := x, ''owner'' := y)) =
     RiderSerializer_validated_data d"
  by (simp add: RiderSerializer_validated_data_def text_field_other boolean_field_other
      decimal_field_other)

lemma passenger_perform_create_cases:
  "PassengerViewSet_perform_create u v now st = (None, st) \<or>
   (\<exists>p. PassengerViewSet_perform_create u v now st =
          (Some p, st\<lparr>passengers := passengers st @ [p],
                      effects := effects st @ [Db_write ''Passenger'']\<rparr>) \<and>
        passenger_user p = u)"
  by (simp add: PassengerViewSet_perform_create_def Let_def record_effects_def)

lemma rider_perform_create_cases:
  "RiderViewSet_perform_create u v now st = (None, st) \<or>
   (\<exists>r. RiderViewSet_perform_create u v now st =
          (Some r, st\<lparr>riders := riders st @ [r],
                      effects := effects st @ [Db_write ''Rider'']\<rparr>) \<and>
        rider_user r = u)"
  by (simp add: RiderViewSet_perform_create_def Let_def record_effects_def)

lemma passenger_create_cases:
  "(status (fst (PassengerViewSet_create u d now st)) \<noteq> HTTP_201_CREATED \<and>
    snd (PassengerViewSet_create u d now st) = st) \<or>
   (\<exists>p. PassengerViewSet_create u d now st =
          (Response (Passenger_data (PassengerSerializer p)) HTTP_201_CREATED,
           st\<lparr>passengers := passengers st @ [p],
              effects := effects st @ [Db_write ''Passenger'']\<rparr>) \<and>
        passenger_user p = u)"
proof (cases "PassengerSerializer_validated_data d")
  case None
  then show ?thesis by (simp add: PassengerViewSet_create_def)
next
  case (Some v)
  from passenger_perform_create_cases [of u v now st] Some show ?thesis
    by (auto simp: PassengerViewSet_create_def)
qed

lemma rider_create_cases:
  "(status (fst (RiderViewSet_create u d now st)) \<noteq> HTTP_201_CREATED \<and>
    snd (RiderViewSet_create u d now st) = st) \<or>
   (\<exists>r. RiderViewSet_create u d now st =
          (Response (Rider_data (RiderSerializer r)) HTTP_201_CREATED,
           st\<lparr>riders := riders st @ [r], effects := effects st @ [Db_write ''Rider'']\<rparr>) \<and>
        rider_user r = u)"
proof (cases "RiderSerializer_validated_data d")
  case None
  then show ?thesis by (simp add: RiderViewSet_create_def)
next
  case (Some v)
  from rider_perform_create_cases [of u v now st] Some show ?thesis
    by (auto simp: RiderViewSet_create_def)
qed

text \<open>
  Claim C5. A create request for a Passenger or a Rider profile either persists nothing
  or appends exactly one row, and the owner of that row is the requester. When the
  answer has status 201, the row has been appended and the answer is its serialization.
  What the payload holds under \<^verbatim>\<open>user\<close> or \<^verbatim>\<open>owner\<close>, if anything, makes no
  difference to the answer or to the state.
\<close>

theorem create_stamps_requester:
  "(passengers (snd (PassengerViewSet_create u d now st)) = passengers st \<or>
    (\<exists>p. passengers (snd (PassengerViewSet_create u d now st)) = passengers st @ [p] \<and>
         passenger_user p = u)) \<and>
   (riders (snd (RiderViewSet_create u d now st)) = riders st \<or>
    (\<exists>r. riders (snd (RiderViewSet_create u d now st)) = riders st @ [r] \<and>
         rider_user r = u)) \<and>
   (status (fst (PassengerViewSet_create u d now st)) = HTTP_201_CREATED \<longrightarrow>
      (\<exists>p. passengers (snd (PassengerViewSet_create u d now st)) = passengers st @ [p] \<and>
           passenger_user p = u \<and>
           data (fst (PassengerViewSet_create u d now st)) =
             Passenger_data (PassengerSerializer p))) \<and>
   (status (fst (RiderViewSet_create u d now st)) = HTTP_201_CREATED \<longrightarrow>
      (\<exists>r. riders (snd (RiderViewSet_create u d now st)) = riders st @ [r] \<and>
           rider_user r = u \<and>
           data (fst (RiderViewSet_create u d now st)) = Rider_data (RiderSerializer r))) \<and>
   PassengerViewSet_create u (d(''user'' := x, ''owner'' := y)) now st =
     PassengerViewSet_create u d now st \<and>
   RiderViewSet_create u (d(''user'' := x, ''owner'' := y)) now st =
     RiderViewSet_create u d now st"
proof -
  note p = passenger_create_cases [of u d now st] and r = rider_create_cases [of u d now st]
  have p1: "passengers (snd (PassengerViewSet_create u d now st)) = passengers st \<or>
    (\<exists>p. passengers (snd (PassengerViewSet_create u d now st)) = passengers st @ [p] \<and>
         passenger_user p = u)"
    using p by auto
  have r1: "riders (snd (RiderViewSet_create u d now st)) = riders st \<or>
    (\<exists>r. riders (snd (RiderViewSet_create u d now st)) = riders st @ [r] \<and>
         rider_user r = u)"
    using r by auto
  have p2: "\<exists>p. passengers (snd (PassengerViewSet_create u d now st)) = passengers st @ [p] \<and>
           passenger_user p = u \<and>
           data (fst (PassengerViewSet_create u d now st)) =
             Passenger_data (PassengerSerializer p)"
    if "status (fst (PassengerViewSet_create u d now st)) = HTTP_201_CREATED"
    using p that by auto
  have r2: "\<exists>r. riders (snd (RiderViewSet_create u d now st)) = riders st @ [r] \<and>
           rider_user r = u \<and>
           data (fst (RiderViewSet_create u d now st)) = Rider_data (RiderSerializer r)"
    if "status (fst (RiderViewSet_create u d now st)) = HTTP_201_CREATED"
    using r that by auto
  have p3: "PassengerViewSet_create u (d(''user'' := x, ''owner'' := y)) now st =
     PassengerViewSet_create u d now st"
    by (simp only: PassengerViewSet_create_def PassengerSerializer_ignores)
  have r3: "RiderViewSet_create u (d(''user'' := x, ''owner'' := y)) now st =
     RiderViewSet_create u d now st"
    by (simp only: RiderViewSet_create_def RiderSerializer_ignores)
  from p1 r1 p2 r2 p3 r3 show ?thesis by blast
qed

lemma payload_passenger_valid:
  "PassengerSerializer_validated_data payload_passenger =
     Some \<lparr>vd_passenger_id = ''P-9'', vd_preferred_payment_method = ''cash'',
           vd_home_address = ''KN 3 Rd'', vd_passenger_profile_picture = ''u.png'',
           vd_preferred_language = ''rw'', vd_emergency_contact = ''0799'',
           vd_is_verified = False\<rparr>"
  by (simp add: PassengerSerializer_validated_data_def payload_passenger_def text_field_def
      boolean_field_def)

lemma payload_rider_valid:
  "RiderSerializer_validated_data payload_rider =
     Some \<lparr>vd_rider_profile_picture = ''n.png'', vd_license_number = ''L-4'',
           vd_license_picture = ''ln.png'', vd_id_number_picture = ''in.png'',
           vd_verification_status = ''pending'', vd_verification_notes = ''new'',
           vd_is_available = False, vd_current_latitude = None,
           vd_current_longitude = None\<rparr>"
  by (simp add: RiderSerializer_validated_data_def payload_rider_def text_field_def
      boolean_field_def decimal_field_def)

theorem create_stamps_requester_witness:
  "payload_passenger ''owner'' = Some (Number 2) \<and> payload_passenger ''user'' = Some (Number 2) \<and>
   user_pk user_U \<noteq> 2 \<and>
   status (fst (PassengerViewSet_create user_U payload_passenger 50 st0)) = HTTP_201_CREATED \<and>
   passengers (snd (PassengerViewSet_create user_U payload_passenger 50 st0)) =
     [passenger_P,
      \<lparr>passenger_pk = 2, passenger_user = user_U, passenger_id = ''P-9'',
       preferred_payment_method = ''cash'', home_address = ''KN 3 Rd'',
       passenger_profile_picture = ''u.png'', preferred_language = ''rw'',
       emergency_contact = ''0799'', is_verified = False,
       passenger_created_at = 50, passenger_updated_at = 50\<rparr>] \<and>
   status (fst (RiderViewSet_create user_new payload_rider 60 st0)) = HTTP_201_CREATED \<and>
   (\<exists>r. riders (snd (RiderViewSet_create user_new payload_rider 60 st0)) =
          [rider_A, rider_B, r] \<and> rider_user r = user_new)"
proof -
  have keys: "payload_passenger ''owner'' = Some (Number 2)"
    "payload_passenger ''user'' = Some (Number 2)"
    by (simp_all add: payload_passenger_def)
  have u: "user_pk user_U \<noteq> 2" by (simp add: user_U_def)
  have free: "user_pk user_U \<notin> set (map (\<lambda>p. user_pk (passenger_user p)) (passengers st0))"
    by (simp add: st0_passengers passenger_P_def user_U_def user_U2_def)
  have pk: "next_pk (map passenger_pk (passengers st0)) = 2"
    by (simp add: next_pk_def st0_passengers passenger_P_def)
  have p: "PassengerViewSet_create user_U payload_passenger 50 st0 =
     (Response (Passenger_data (PassengerSerializer
        \<lparr>passenger_pk = 2, passenger_user = user_U, passenger_id = ''P-9'',
         preferred_payment_method = ''cash'', home_address = ''KN 3 Rd'',
         passenger_profile_picture = ''u.png'', preferred_language = ''rw'',
         emergency_contact = ''0799'', is_verified = False,
         passenger_created_at = 50, passenger_updated_at = 50\<rparr>)) HTTP_201_CREATED,
      st0\<lparr>passengers := passengers st0 @
        [\<lparr>passenger_pk = 2, passenger_user = user_U, passenger_id = ''P-9'',
         preferred_payment_method = ''cash'', home_address = ''KN 3 Rd'',
         passenger_profile_picture = ''u.png'', preferred_language = ''rw'',
         emergency_contact = ''0799'', is_verified = False,
         passenger_created_at = 50, passenger_updated_at = 50\<rparr>],
         effects := effects st0 @ [Db_write ''Passenger'']\<rparr>)"
    unfolding PassengerViewSet_create_def payload_passenger_valid
      PassengerViewSet_perform_create_def Let_def pk
    using free by (simp add: record_effects_def)
  have freer: "user_pk user_new \<notin> set (map (\<lambda>r. user_pk (rider_user r)) (riders st0))"
    by (simp add: st0_riders rider_A_def rider_B_def user_U_def user_U2_def user_new_def)
  have r: "status (fst (RiderViewSet_create user_new payload_rider 60 st0)) = HTTP_201_CREATED"
    unfolding RiderViewSet_create_def payload_rider_valid
      RiderViewSet_perform_create_def Let_def
    using freer by simp
  from create_stamps_requester [of user_U payload_passenger 50 st0]
       create_stamps_requester [of user_new payload_rider 60 st0] r
  have "\<exists>r. riders (snd (RiderViewSet_create user_new payload_rider 60 st0)) =
          riders st0 @ [r] \<and> rider_user r = user_new"
    by blast
  with keys u r show ?thesis
    unfolding p by (simp add: st0_riders st0_passengers)
qed

section \<open>My profile\<close>

text \<open>
  Claim C7. For a requester who owns no Rider row, \<open>my_profile\<close> of the rider
  view set answers with status 404 and the body
  \<^verbatim>\<open>{'error': 'Rider profile not found'}\<close>; for a requester who owns no Passenger
  row, the passenger view set answers with status 404 and
  \<^verbatim>\<open>{'error': 'Passenger profile not found'}\<close>. Neither changes its table.
\<close>

theorem my_profile_not_found:
  "((\<forall>r\<in>set (riders st). user_pk (rider_user r) \<noteq> user_pk u) \<longrightarrow>
      fst (RiderViewSet_my_profile u st) =
        Response (Error_data ''Rider profile not found'') HTTP_404_NOT_FOUND \<and>
      riders (snd (RiderViewSet_my_profile u st)) = riders st) \<and>
   ((\<forall>p\<in>set (passengers st). user_pk (passenger_user p) \<noteq> user_pk u) \<longrightarrow>
      fst (PassengerViewSet_my_profile u st) =
        Response (Error_data ''Passenger profile not found'') HTTP_404_NOT_FOUND \<and>
      passengers (snd (PassengerViewSet_my_profile u st)) = passengers st)"
proof -
  have r: "fst (RiderViewSet_my_profile u st) =
        Response (Error_data ''Rider profile not found'') HTTP_404_NOT_FOUND \<and>
      riders (snd (RiderViewSet_my_profile u st)) = riders st"
    if "\<forall>r\<in>set (riders st). user_pk (rider_user r) \<noteq> user_pk u"
  proof -
    from that have "filter (\<lambda>r. user_pk (rider_user r) = user_pk u) (riders st) = []"
      by (simp add: filter_empty_conv)
    then show ?thesis
      by (simp add: RiderViewSet_my_profile_def Let_def record_effects_def)
  qed
  have p: "fst (PassengerViewSet_my_profile u st) =
        Response (Error_data ''Passenger profile not found'') HTTP_404_NOT_FOUND \<and>
      passengers (snd (PassengerViewSet_my_profile u st)) = passengers st"
    if "\<forall>p\<in>set (passengers st). user_pk (passenger_user p) \<noteq> user_pk u"
  proof -
    from that have "filter (\<lambda>p. user_pk (passenger_user p) = user_pk u) (passengers st) = []"
      by (simp add: filter_empty_conv)
    then show ?thesis
      by (simp add: PassengerViewSet_my_profile_def Let_def record_effects_def)
  qed
  from r p show ?thesis by blast
qed

theorem my_profile_not_found_witness:
  "riders st0 = [rider_A, rider_B] \<and> passengers st0 = [passenger_P] \<and>
   user_pk (rider_user rider_A) \<noteq> user_pk user_new \<and>
   user_pk (rider_user rider_B) \<noteq> user_pk user_new \<and>
   user_pk (passenger_user passenger_P) \<noteq> user_pk user_new \<and>
   fst (RiderViewSet_my_profile user_new st0) =
     Response (Error_data ''Rider profile not found'') HTTP_404_NOT_FOUND \<and>
   fst (PassengerViewSet_my_profile user_new st0) =
     Response (Error_data ''Passenger profile not found'') HTTP_404_NOT_FOUND \<and>
   status (fst (RiderViewSet_my_profile user_new st0)) \<noteq> HTTP_403_FORBIDDEN"
proof -
  have nr: "\<forall>r\<in>set (riders st0). user_pk (rider_user r) \<noteq> user_pk user_new"
    by (simp add: st0_riders rider_A_def rider_B_def user_U_def user_U2_def user_new_def)
  have np: "\<forall>p\<in>set (passengers st0). user_pk (passenger_user p) \<noteq> user_pk user_new"
    by (simp add: st0_passengers passenger_P_def user_U2_def user_new_def)
  from my_profile_not_found [of st0 user_new] nr np
  have "fst (RiderViewSet_my_profile user_new st0) =
          Response (Error_data ''Rider profile not found'') HTTP_404_NOT_FOUND"
    and "fst (PassengerViewSet_my_profile user_new st0) =
          Response (Error_data ''Passenger profile not found'') HTTP_404_NOT_FOUND"
    by blast+
  with nr np show ?thesis by (simp add: st0_riders st0_passengers)
qed

end
